theory Spec2Isabelle
  imports Main
begin

section \<open>Data model\<close>

text \<open>
  The tracker of \<^verbatim>\<open>ConvivaAnalyticsTracker.ts\<close>, the server-side ad facade of
  \<^verbatim>\<open>ConvivaAnalyticsSsai.ts\<close>, the helper \<^verbatim>\<open>PlayerStateHelper.ts\<close> and the event
  handlers of \<^verbatim>\<open>ConvivaAnalytics.ts\<close>, as functions on an explicit tracker state.
  Every call made on the vendor SDK is appended to \<open>sdk_calls\<close>, every line written to
  the console to \<open>logs\<close>; an exception that leaves a method is the outcome \<open>Throws\<close>.
\<close>

datatype PlayerEvent =
  Play | Playing | Paused | StallStarted | StallEnded | PlaybackFinished
  | Seek | Seeked | TimeShift | TimeShifted | SourceLoaded | SourceUnloaded
  | AdBreakStarted | AdBreakFinished | AdStarted | AdSkipped | Error | Destroy

text \<open>An event object: its type and the payload fields the handlers read.\<close>

record PlayerEventBase =
  ev_type :: PlayerEvent
  ev_seekTarget :: int
  ev_code :: nat
  ev_name :: string
  ev_bitrate :: nat

datatype PlayerState = BUFFERING | PLAYING | PAUSED | STOPPED

datatype AdType = CLIENT_SIDE | SERVER_SIDE

datatype AdPlayer = CONTENT | SEPARATE

datatype ErrorSeverity = FATAL | WARNING

datatype LogLevel = LOG_DEBUG | LOG_WARNING | LOG_ERROR

datatype Playback =
  PLAYER_STATE | BITRATE | PLAY_HEAD_TIME | SEEK_STARTED | SEEK_ENDED
  | AUDIO_LANGUAGE | SUBTITLES_LANGUAGE | CLOSED_CAPTIONS_LANGUAGE
  | RESOLUTION | RENDERED_FRAMERATE

datatype MetricValue = StateValue PlayerState | NumValue int | StrValue string | NoValue

text \<open>The calls the tracker makes on the vendor SDK (video analytics and ad analytics handles).\<close>

datatype sdk_call =
  BuildVideoAnalytics
  | BuildAdAnalytics
  | VideoSetPlayerInfo
  | AdSetAdPlayerInfo
  | VideoSetCallback
  | VideoGetSessionId
  | VideoSetContentInfo "string option"
  | VideoRelease
  | AdRelease
  | VideoReportPlaybackRequested "string option"
  | VideoReportPlaybackMetric Playback MetricValue
  | VideoReportAppEvent string
  | VideoReportPlaybackEnded
  | VideoReportPlaybackFailed string
  | VideoReportPlaybackEvent string
  | VideoReportAdBreakStarted AdType AdPlayer
  | VideoReportAdBreakEnded
  | AdReportAdMetric Playback MetricValue
  | AdReportAdSkipped
  | AdReportAdStarted
  | AdReportAdEnded
  | AdReportAdError string ErrorSeverity
  | AnalyticsRelease

datatype log_entry = DebugLog string | ConsoleLog LogLevel string

record SourceConfig =
  title :: "string option"

record AudioTrack =
  audio_lang :: string
  audio_label :: string

datatype SubtitleKind = Subtitles | Captions | OtherKind

record SubtitleTrack =
  sub_enabled :: bool
  sub_kind :: SubtitleKind
  sub_lang :: string
  sub_label :: string

text \<open>Width, height and frame rate in whole units; a frame rate of 0 stands for a missing one.\<close>

record PlaybackVideoData =
  width :: nat
  height :: nat
  frameRate :: nat

text \<open>The queries of the player that the tracker asks, as a snapshot of the player.\<close>

record PlayerAPI =
  isPlaying :: bool
  isPaused :: bool
  isStalled :: bool
  getSource :: "SourceConfig option"
  getAudio :: AudioTrack
  subtitles :: "SubtitleTrack list option"
  getPlaybackVideoData :: PlaybackVideoData

text \<open>
  Modelled from the spec: \<^verbatim>\<open>ContentMetadataBuilder\<close> (its file is not among the sources).
  Of the content metadata only the asset name is kept, the one field a claim reads:
  overrides win over the value derived from the player's source, \<open>setOverrides\<close>
  replaces only the provided keys, \<open>reset\<close> clears all accumulated state. Duration,
  stream type, stream URL and custom tags are left out.
\<close>

record ContentMetadataBuilder =
  overrides_assetName :: "string option"
  metadata_assetName :: "string option"
  playbackStarted :: bool

record tracker =
  player :: "PlayerAPI option"
  debugLoggingEnabled :: bool
  contentMetadataBuilder :: ContentMetadataBuilder
  convivaVideoAnalytics :: "nat option"
  convivaAdAnalytics :: "nat option"
  sessionKey :: int
  isAdBreakActive :: bool
  hasPlayed :: bool
  sessionEndedExternally :: bool
  stallTrackingTimeout :: "nat option"
  sdk_next :: nat
  sdk_calls :: "sdk_call list"
  logs :: "log_entry list"

datatype outcome = Returns tracker | Throws string tracker

fun state_of :: "outcome \<Rightarrow> tracker" where
  "state_of (Returns s) = s"
| "state_of (Throws m s) = s"

fun and_then :: "outcome \<Rightarrow> (tracker \<Rightarrow> outcome) \<Rightarrow> outcome" where
  "and_then (Returns s) f = f s"
| "and_then (Throws m s) f = Throws m s"

definition NO_SESSION_KEY :: int where
  "NO_SESSION_KEY = - 2"

definition STALL_TRACKING_DELAY_MS :: nat where
  "STALL_TRACKING_DELAY_MS = 100"

definition new_builder :: ContentMetadataBuilder where
  "new_builder = \<lparr>overrides_assetName = None, metadata_assetName = None, playbackStarted = False\<rparr>"

text \<open>The tracker after its constructor: no player, no session, every flag false, the stall timer idle.\<close>

definition new_tracker :: "bool \<Rightarrow> tracker" where
  "new_tracker dbg =
     \<lparr>player = None, debugLoggingEnabled = dbg, contentMetadataBuilder = new_builder,
      convivaVideoAnalytics = None, convivaAdAnalytics = None, sessionKey = NO_SESSION_KEY,
      isAdBreakActive = False, hasPlayed = False, sessionEndedExternally = False,
      stallTrackingTimeout = None, sdk_next = 0, sdk_calls = [], logs = []\<rparr>"

section \<open>Helpers\<close>

text \<open>JavaScript truthiness of an optional string: \<open>undefined\<close> and the empty string are falsy.\<close>

fun truthy :: "string option \<Rightarrow> bool" where
  "truthy None = False"
| "truthy (Some v) = (v \<noteq> [])"

definition builder_assetName :: "ContentMetadataBuilder \<Rightarrow> string option" where
  "builder_assetName b =
     (if truthy (overrides_assetName b) then overrides_assetName b else metadata_assetName b)"

definition builder_build :: "ContentMetadataBuilder \<Rightarrow> string option" where
  "builder_build b = builder_assetName b"

definition builder_setOverrides :: "string option \<Rightarrow> ContentMetadataBuilder \<Rightarrow> ContentMetadataBuilder" where
  "builder_setOverrides ov b = (case ov of None \<Rightarrow> b | Some v \<Rightarrow> b\<lparr>overrides_assetName := Some v\<rparr>)"

definition builder_reset :: "ContentMetadataBuilder \<Rightarrow> ContentMetadataBuilder" where
  "builder_reset b = new_builder"

definition isSessionActive :: "tracker \<Rightarrow> bool" where
  "isSessionActive s = (convivaVideoAnalytics s \<noteq> None)"

definition isPlayerAttached :: "tracker \<Rightarrow> bool" where
  "isPlayerAttached s = (player s \<noteq> None)"

definition player_source :: "tracker \<Rightarrow> SourceConfig option" where
  "player_source s = (case player s of None \<Rightarrow> None | Some p \<Rightarrow> getSource p)"

definition canTrackPlayEvent :: "tracker \<Rightarrow> bool" where
  "canTrackPlayEvent s = (\<not> isAdBreakActive s)"

definition PLAYER_NOT_INITIALIZED :: string where
  "PLAYER_NOT_INITIALIZED =
     ''Player is not initialized, either pass it to the constructor or attach it via `attachPlayer` before using the integration.''"

definition debugLog :: "string \<Rightarrow> tracker \<Rightarrow> tracker" where
  "debugLog msg s = (if debugLoggingEnabled s then s\<lparr>logs := logs s @ [DebugLog msg]\<rparr> else s)"

definition consoleLog :: "string \<Rightarrow> LogLevel \<Rightarrow> tracker \<Rightarrow> tracker" where
  "consoleLog msg lvl s = s\<lparr>logs := logs s @ [ConsoleLog lvl msg]\<rparr>"

definition sdk_record :: "sdk_call \<Rightarrow> tracker \<Rightarrow> tracker" where
  "sdk_record c s = s\<lparr>sdk_calls := sdk_calls s @ [c]\<rparr>"

section \<open>The report wrappers\<close>

text \<open>
  Each wrapper is \<^verbatim>\<open>try { handle.method(args) } catch (error) { this.debugLog(label, error) }\<close>.
  The oracle \<open>thr\<close> says which vendor calls throw. On a null handle the member access
  throws a TypeError inside the \<^verbatim>\<open>try\<close>, so nothing reaches the SDK and the catch logs.
\<close>

definition try_sdk :: "(sdk_call \<Rightarrow> bool) \<Rightarrow> nat option \<Rightarrow> sdk_call \<Rightarrow> string \<Rightarrow> tracker \<Rightarrow> tracker" where
  "try_sdk thr handle c label s =
     (case handle of
        None \<Rightarrow> debugLog label s
      | Some h \<Rightarrow> (if thr c then debugLog label (sdk_record c s) else sdk_record c s))"

definition reportPlaybackMetric :: "(sdk_call \<Rightarrow> bool) \<Rightarrow> Playback \<Rightarrow> MetricValue \<Rightarrow> tracker \<Rightarrow> tracker" where
  "reportPlaybackMetric thr metricKey metricValue s =
     try_sdk thr (convivaVideoAnalytics s) (VideoReportPlaybackMetric metricKey metricValue)
       ''[ ConvivaAnalyticsTracker ] error @ reportPlaybackMetric'' s"

definition reportAppEvent :: "(sdk_call \<Rightarrow> bool) \<Rightarrow> string \<Rightarrow> tracker \<Rightarrow> tracker" where
  "reportAppEvent thr eventName s =
     try_sdk thr (convivaVideoAnalytics s) (VideoReportAppEvent eventName)
       ''[ ConvivaAnalyticsTracker ] error @ reportAppEvent'' s"

definition reportPlaybackEnded :: "(sdk_call \<Rightarrow> bool) \<Rightarrow> tracker \<Rightarrow> tracker" where
  "reportPlaybackEnded thr s =
     try_sdk thr (convivaVideoAnalytics s) VideoReportPlaybackEnded
       ''[ ConvivaAnalyticsTracker ] error @ reportPlaybackEnded'' s"

definition reportPlaybackFailed :: "(sdk_call \<Rightarrow> bool) \<Rightarrow> string \<Rightarrow> tracker \<Rightarrow> tracker" where
  "reportPlaybackFailed thr message s =
     try_sdk thr (convivaVideoAnalytics s) (VideoReportPlaybackFailed message)
       ''[ ConvivaAnalyticsTracker ] error @ reportPlaybackFailed'' s"

definition reportPlaybackEvent :: "(sdk_call \<Rightarrow> bool) \<Rightarrow> string \<Rightarrow> tracker \<Rightarrow> tracker" where
  "reportPlaybackEvent thr eventName s =
     try_sdk thr (convivaVideoAnalytics s) (VideoReportPlaybackEvent eventName)
       ''[ ConvivaAnalyticsTracker ] error @ reportPlaybackEvent'' s"

definition reportAdBreakStarted :: "(sdk_call \<Rightarrow> bool) \<Rightarrow> AdType \<Rightarrow> AdPlayer \<Rightarrow> tracker \<Rightarrow> tracker" where
  "reportAdBreakStarted thr type val s =
     try_sdk thr (convivaVideoAnalytics s) (VideoReportAdBreakStarted type val)
       ''[ ConvivaAnalyticsTracker ] error @ reportAdBreakStarted'' s"

definition reportAdBreakEnded :: "(sdk_call \<Rightarrow> bool) \<Rightarrow> tracker \<Rightarrow> tracker" where
  "reportAdBreakEnded thr s =
     try_sdk thr (convivaVideoAnalytics s) VideoReportAdBreakEnded
       ''[ ConvivaAnalyticsTracker ] error @ reportAdBreakEnded'' s"

definition reportPlaybackRequested :: "(sdk_call \<Rightarrow> bool) \<Rightarrow> tracker \<Rightarrow> tracker" where
  "reportPlaybackRequested thr s =
     try_sdk thr (convivaVideoAnalytics s)
       (VideoReportPlaybackRequested (builder_build (contentMetadataBuilder s)))
       ''[ ConvivaAnalyticsTracker ] error @ reportPlaybackRequested'' s"

definition reportAdMetric :: "(sdk_call \<Rightarrow> bool) \<Rightarrow> Playback \<Rightarrow> MetricValue \<Rightarrow> tracker \<Rightarrow> tracker" where
  "reportAdMetric thr metricKey metricValue s =
     try_sdk thr (convivaAdAnalytics s) (AdReportAdMetric metricKey metricValue)
       ''[ ConvivaAnalyticsTracker ] error @ reportPlaybackMetric'' s"

definition reportAdSkipped :: "(sdk_call \<Rightarrow> bool) \<Rightarrow> tracker \<Rightarrow> tracker" where
  "reportAdSkipped thr s =
     try_sdk thr (convivaAdAnalytics s) AdReportAdSkipped
       ''[ ConvivaAnalyticsTracker ] error @ reportAdSkipped'' s"

definition reportAdStarted :: "(sdk_call \<Rightarrow> bool) \<Rightarrow> tracker \<Rightarrow> tracker" where
  "reportAdStarted thr s =
     try_sdk thr (convivaAdAnalytics s) AdReportAdStarted
       ''[ ConvivaAnalyticsTracker ] error @ reportAdStarted'' s"

definition reportAdError :: "(sdk_call \<Rightarrow> bool) \<Rightarrow> string \<Rightarrow> ErrorSeverity \<Rightarrow> tracker \<Rightarrow> tracker" where
  "reportAdError thr err severity s =
     try_sdk thr (convivaAdAnalytics s) (AdReportAdError err severity)
       ''[ ConvivaAnalyticsTracker ] error @ reportAdError'' s"

section \<open>Session lifecycle\<close>

definition getAssetNameFromSource :: "SourceConfig \<Rightarrow> string" where
  "getAssetNameFromSource source =
     (case title source of
        None \<Rightarrow> ''Untitled (no source.title set)''
      | Some assetTitle \<Rightarrow>
          (if assetTitle \<noteq> [] then assetTitle else ''Untitled (no source.title set)''))"

definition buildContentMetadata :: "tracker \<Rightarrow> tracker" where
  "buildContentMetadata s =
     (case player s of
        None \<Rightarrow>
          debugLog ''[ ConvivaAnalyticsTracker ] Player is not attached, skipping default content metadata initialization, it will be initialized on source loaded event'' s
      | Some p \<Rightarrow>
          (case getSource p of
             None \<Rightarrow> s
           | Some source \<Rightarrow>
               s\<lparr>contentMetadataBuilder :=
                   (contentMetadataBuilder s)\<lparr>metadata_assetName := Some (getAssetNameFromSource source)\<rparr>\<rparr>))"

definition setPlayerInfo :: "tracker \<Rightarrow> tracker" where
  "setPlayerInfo s =
     (if convivaVideoAnalytics s = None \<or> convivaAdAnalytics s = None \<or> \<not> isPlayerAttached s then s
      else sdk_record AdSetAdPlayerInfo (sdk_record VideoSetPlayerInfo s))"

definition updateSession :: "tracker \<Rightarrow> tracker" where
  "updateSession s =
     (if \<not> isSessionActive s then s
      else sdk_record (VideoSetContentInfo (builder_build (contentMetadataBuilder s))) s)"

definition internalInitializeSession :: "(sdk_call \<Rightarrow> bool) \<Rightarrow> tracker \<Rightarrow> tracker" where
  "internalInitializeSession thr s =
     (let s1 = buildContentMetadata (debugLog ''[ ConvivaAnalyticsTracker ] initializing session'' s);
          s2 = sdk_record BuildVideoAnalytics s1;
          s3 = s2\<lparr>convivaVideoAnalytics := Some (sdk_next s2), sdk_next := Suc (sdk_next s2)\<rparr>;
          s4 = sdk_record BuildAdAnalytics s3;
          s5 = s4\<lparr>convivaAdAnalytics := Some (sdk_next s4), sdk_next := Suc (sdk_next s4)\<rparr>;
          s6 = reportPlaybackRequested thr
                 (debugLog ''[ ConvivaAnalyticsTracker ] report playback requested'' s5);
          s7 = (sdk_record VideoGetSessionId s6)\<lparr>sessionKey := int (sdk_next s2)\<rparr>;
          s8 = setPlayerInfo (debugLog ''[ ConvivaAnalyticsTracker ] new session key'' s7);
          s9 = reportPlaybackMetric thr PLAYER_STATE (StateValue STOPPED) s8;
          s10 = sdk_record VideoSetCallback s9
      in if \<not> isSessionActive s10
         then consoleLog ''[ ConvivaAnalyticsTracker ] Something went wrong, could not obtain session key''
                LOG_ERROR s10
         else s10)"

definition INIT_NOT_ATTACHED :: string where
  "INIT_NOT_ATTACHED =
     ''Player is not attached during session initialization and `assetName` is empty in the content metadata. Either attach the player before calling `initializeSession` or set the `assetName` manually using `updateContentMetadata`.''"

definition INIT_NO_SOURCE :: string where
  "INIT_NO_SOURCE =
     ''Player is attached but no source is loaded and `assetName` is empty in the content metadata. Either load a source before calling `initializeSession` or set the `assetName` manually using `updateContentMetadata`.''"

definition initializeSession :: "(sdk_call \<Rightarrow> bool) \<Rightarrow> tracker \<Rightarrow> outcome" where
  "initializeSession thr s =
     (if isSessionActive s
      then Returns (consoleLog ''[ ConvivaAnalyticsTracker ] There is already a session running.''
                      LOG_WARNING s)
      else if \<not> isPlayerAttached s \<and> \<not> truthy (builder_assetName (contentMetadataBuilder s))
      then Throws INIT_NOT_ATTACHED s
      else if isPlayerAttached s \<and> player_source s = None
                \<and> \<not> truthy (builder_assetName (contentMetadataBuilder s))
      then Throws INIT_NO_SOURCE s
      else Returns ((internalInitializeSession thr s)\<lparr>sessionEndedExternally := False\<rparr>))"

definition ensurePlaybackFinished :: "(sdk_call \<Rightarrow> bool) \<Rightarrow> tracker \<Rightarrow> tracker" where
  "ensurePlaybackFinished thr s =
     (if \<not> isSessionActive s then s
      else
        (let s1 = (if isAdBreakActive s
                   then reportAdSkipped thr (debugLog ''[ ConvivaAnalyticsTracker ] report ad skipped'' s)
                   else s)
         in reportPlaybackEnded thr
              (debugLog ''[ ConvivaAnalyticsTracker ] report playback ended state'' s1)))"

text \<open>
  \<open>release()\<close> on the two handles is not wrapped: on a null ad handle the member access
  throws a TypeError that leaves the method, after the video handle has been released.
\<close>

definition internalEndSession :: "tracker \<Rightarrow> outcome" where
  "internalEndSession s =
     (if \<not> isSessionActive s then Returns s
      else
        (let s1 = debugLog ''[ ConvivaAnalyticsTracker ] end session'' s;
             s2 = s1\<lparr>contentMetadataBuilder := builder_reset (contentMetadataBuilder s1)\<rparr>;
             s3 = (sdk_record VideoRelease s2)\<lparr>convivaVideoAnalytics := None\<rparr>
         in (case convivaAdAnalytics s3 of
               None \<Rightarrow> Throws ''TypeError'' s3
             | Some h \<Rightarrow>
                 Returns ((sdk_record AdRelease s3)
                   \<lparr>convivaAdAnalytics := None, hasPlayed := False, isAdBreakActive := False\<rparr>))))"

definition endSession :: "(sdk_call \<Rightarrow> bool) \<Rightarrow> tracker \<Rightarrow> outcome" where
  "endSession thr s =
     (if \<not> isSessionActive s then Returns s
      else
        and_then
          (internalEndSession
             (ensurePlaybackFinished thr (debugLog ''[ ConvivaAnalytics ] external ending session'' s)))
          (\<lambda>s'. Returns (s'\<lparr>sessionEndedExternally := True\<rparr>)))"

definition internalUpdateContentMetadata :: "string option \<Rightarrow> tracker \<Rightarrow> tracker" where
  "internalUpdateContentMetadata metadataOverrides s =
     (let s1 = s\<lparr>contentMetadataBuilder := builder_setOverrides metadataOverrides (contentMetadataBuilder s)\<rparr>
      in if \<not> isSessionActive s1
         then consoleLog ''[ ConvivaAnalyticsTracker ] no active session. Content metadata will be propagated to Conviva on session initialization.''
                LOG_DEBUG s1
         else updateSession (buildContentMetadata s1))"

definition updateContentMetadata :: "string option \<Rightarrow> tracker \<Rightarrow> tracker" where
  "updateContentMetadata metadataOverrides s = internalUpdateContentMetadata metadataOverrides s"

definition reportPlaybackDeficiency ::
    "(sdk_call \<Rightarrow> bool) \<Rightarrow> string \<Rightarrow> ErrorSeverity \<Rightarrow> bool \<Rightarrow> tracker \<Rightarrow> outcome" where
  "reportPlaybackDeficiency thr message severity endSessionFlag s =
     (if \<not> isSessionActive s then Returns s
      else
        (let s1 = reportPlaybackFailed thr message
                    (debugLog ''[ ConvivaAnalyticsTracker ] report playback failed'' s)
         in if endSessionFlag then internalEndSession s1 else Returns s1))"

definition sendCustomPlaybackEvent :: "(sdk_call \<Rightarrow> bool) \<Rightarrow> string \<Rightarrow> tracker \<Rightarrow> tracker" where
  "sendCustomPlaybackEvent thr eventName s =
     (if \<not> isSessionActive s
      then consoleLog ''[ ConvivaAnalyticsTracker ] cannot send playback event, no active monitoring session''
             LOG_WARNING s
      else reportPlaybackEvent thr eventName
             (debugLog ''[ ConvivaAnalyticsTracker ] report custom playback event'' s))"

definition sendCustomApplicationEvent :: "(sdk_call \<Rightarrow> bool) \<Rightarrow> string \<Rightarrow> tracker \<Rightarrow> tracker" where
  "sendCustomApplicationEvent thr eventName s =
     (if \<not> isSessionActive s
      then consoleLog ''[ ConvivaAnalyticsTracker ] cannot send application event, no active monitoring session''
             LOG_WARNING s
      else reportAppEvent thr eventName
             (debugLog ''[ ConvivaAnalyticsTracker ] report custom app event'' s))"

definition pauseTracking :: "(sdk_call \<Rightarrow> bool) \<Rightarrow> tracker \<Rightarrow> tracker" where
  "pauseTracking thr s =
     reportAdBreakStarted thr CLIENT_SIDE SEPARATE
       (debugLog ''[ ConvivaAnalyticsTracker ] pause tracking via ad break started reporting'' s)"

definition resumeTracking :: "(sdk_call \<Rightarrow> bool) \<Rightarrow> tracker \<Rightarrow> tracker" where
  "resumeTracking thr s =
     reportAdBreakEnded thr
       (debugLog ''[ ConvivaAnalyticsTracker ] resume tracking via ad break ended reporting'' s)"

text \<open>\<open>release\<close> drops the player (and with it the registered handlers) before it ends the session.\<close>

definition release :: "(sdk_call \<Rightarrow> bool) \<Rightarrow> bool \<Rightarrow> tracker \<Rightarrow> outcome" where
  "release thr isPlayerDestroyed s =
     (let s1 = (debugLog ''[ ConvivaAnalyticsTracker ] releasing'' s)\<lparr>player := None\<rparr>
      in and_then (internalEndSession (ensurePlaybackFinished thr s1))
           (\<lambda>s'. Returns (sdk_record AnalyticsRelease s')))"

definition canAttachPlayer :: "PlayerAPI \<Rightarrow> tracker \<Rightarrow> bool" where
  "canAttachPlayer p s = (\<not> isPlayerAttached s \<and> getSource p = None)"

definition attachPlayer :: "PlayerAPI \<Rightarrow> tracker \<Rightarrow> tracker" where
  "attachPlayer p s = (if \<not> canAttachPlayer p s then s else setPlayerInfo (s\<lparr>player := Some p\<rparr>))"

section \<open>Player state\<close>

definition getPlayerStateFromEvent :: "PlayerEventBase \<Rightarrow> PlayerAPI \<Rightarrow> PlayerState option" where
  "getPlayerStateFromEvent event p =
     (case ev_type event of
        StallStarted \<Rightarrow> Some BUFFERING
      | Playing \<Rightarrow> Some PLAYING
      | Paused \<Rightarrow> Some PAUSED
      | Seeked \<Rightarrow> (if isPlaying p then Some PLAYING else Some PAUSED)
      | TimeShifted \<Rightarrow> (if isPlaying p then Some PLAYING else Some PAUSED)
      | StallEnded \<Rightarrow> (if isPlaying p then Some PLAYING else Some PAUSED)
      | _ \<Rightarrow> None)"

definition getPlayerState :: "PlayerAPI \<Rightarrow> PlayerState" where
  "getPlayerState p = (if isStalled p then BUFFERING else if isPlaying p then PLAYING else PAUSED)"

section \<open>The stall timer\<close>

text \<open>
  Modelled from the spec: the \<^verbatim>\<open>Timeout\<close> class of the player UI library (not among the
  sources). A single pending-or-idle countdown: \<open>start\<close> (re)arms it with the fixed delay,
  \<open>clear\<close> cancels a pending arm and does nothing when idle, and the callback runs once
  when the delay has passed without a clear. \<open>stallTrackingTimeout s = Some r\<close> is a pending
  countdown with \<open>r\<close> milliseconds left. The callback is the tracker's own.
\<close>

definition timeout_start :: "tracker \<Rightarrow> tracker" where
  "timeout_start s = s\<lparr>stallTrackingTimeout := Some STALL_TRACKING_DELAY_MS\<rparr>"

definition timeout_clear :: "tracker \<Rightarrow> tracker" where
  "timeout_clear s = s\<lparr>stallTrackingTimeout := None\<rparr>"

definition stallTrackingCallback :: "(sdk_call \<Rightarrow> bool) \<Rightarrow> tracker \<Rightarrow> tracker" where
  "stallTrackingCallback thr s =
     (if isAdBreakActive s
      then reportAdMetric thr PLAYER_STATE (StateValue BUFFERING)
             (debugLog ''[ ConvivaAnalyticsTracker ] report buffering ad playback state'' s)
      else reportPlaybackMetric thr PLAYER_STATE (StateValue BUFFERING)
             (debugLog ''[ ConvivaAnalyticsTracker ] report buffering playback state'' s))"

text \<open>\<open>d\<close> milliseconds pass with no call into the tracker.\<close>

definition elapse :: "(sdk_call \<Rightarrow> bool) \<Rightarrow> nat \<Rightarrow> tracker \<Rightarrow> tracker" where
  "elapse thr d s =
     (case stallTrackingTimeout s of
        None \<Rightarrow> s
      | Some r \<Rightarrow>
          (if r \<le> d then stallTrackingCallback thr (s\<lparr>stallTrackingTimeout := None\<rparr>)
           else s\<lparr>stallTrackingTimeout := Some (r - d)\<rparr>))"

section \<open>Tracking\<close>

text \<open>\<open>String(n)\<close> for a non-negative integer: its decimal digits.\<close>

definition digit_char :: "nat \<Rightarrow> char" where
  "digit_char d = char_of (48 + d)"

function string_of_nat :: "nat \<Rightarrow> string" where
  "string_of_nat n =
     (if n < 10 then [digit_char n] else string_of_nat (n div 10) @ [digit_char (n mod 10)])"
  by pat_completeness auto
termination
  by (relation "measure id") auto

declare string_of_nat.simps [simp del]

definition stallTrackingStartEvents :: "PlayerEvent list" where
  "stallTrackingStartEvents = [Play, Seek, TimeShift]"

definition stallTrackingClearEvents :: "PlayerEvent list" where
  "stallTrackingClearEvents =
     [StallStarted, Playing, Paused, Seeked, TimeShifted, StallEnded, PlaybackFinished]"

definition trackPlaybackStateChanged :: "(sdk_call \<Rightarrow> bool) \<Rightarrow> PlayerEventBase \<Rightarrow> tracker \<Rightarrow> outcome" where
  "trackPlaybackStateChanged thr event s =
     (if \<not> isSessionActive s then Returns s
      else
        (case player s of
           None \<Rightarrow> Throws PLAYER_NOT_INITIALIZED s
         | Some p \<Rightarrow>
             (let playerState = getPlayerStateFromEvent event p;
                  s1 = (if ev_type event \<in> set stallTrackingStartEvents then timeout_start s
                        else if ev_type event \<in> set stallTrackingClearEvents then timeout_clear s
                        else s);
                  s2 = (case playerState of
                          None \<Rightarrow> s1
                        | Some st \<Rightarrow>
                            (if isAdBreakActive s1
                             then reportAdMetric thr PLAYER_STATE (StateValue st)
                                    (debugLog ''[ ConvivaAnalyticsTracker ] report ad playback state'' s1)
                             else reportPlaybackMetric thr PLAYER_STATE (StateValue st)
                                    (debugLog ''[ ConvivaAnalyticsTracker ] report playback state'' s1)));
                  s3 = (if ev_type event = PlaybackFinished
                        then reportPlaybackEnded thr
                               (debugLog ''[ ConvivaAnalyticsTracker ] report playback ended'' s2)
                        else s2)
              in Returns s3)))"

definition formatTrack :: "string \<Rightarrow> string \<Rightarrow> string" where
  "formatTrack lang label = (if lang \<noteq> ''unknown'' then ''['' @ lang @ '']:'' @ label else label)"

definition trackUpdateAudioTrack :: "(sdk_call \<Rightarrow> bool) \<Rightarrow> AudioTrack \<Rightarrow> tracker \<Rightarrow> tracker" where
  "trackUpdateAudioTrack thr audioTrack s =
     (if \<not> isSessionActive s then s
      else reportPlaybackMetric thr AUDIO_LANGUAGE
             (StrValue (formatTrack (audio_lang audioTrack) (audio_label audioTrack)))
             (debugLog ''[ ConvivaAnalyticsTracker ] report audio language'' s))"

definition trackTurnOffSubtitles :: "(sdk_call \<Rightarrow> bool) \<Rightarrow> tracker \<Rightarrow> tracker" where
  "trackTurnOffSubtitles thr s =
     (if \<not> isSessionActive s then s
      else
        reportPlaybackMetric thr CLOSED_CAPTIONS_LANGUAGE (StrValue ''off'')
          (debugLog ''[ ConvivaAnalyticsTracker ] report off closed captions language''
            (reportPlaybackMetric thr SUBTITLES_LANGUAGE (StrValue ''off'')
              (debugLog ''[ ConvivaAnalyticsTracker ] report off subtitles language'' s))))"

definition trackUpdateSubtitleTrack :: "(sdk_call \<Rightarrow> bool) \<Rightarrow> SubtitleTrack \<Rightarrow> tracker \<Rightarrow> tracker" where
  "trackUpdateSubtitleTrack thr subtitleTrack s =
     (if \<not> isSessionActive s then s
      else
        (let formattedSubtitle = formatTrack (sub_lang subtitleTrack) (sub_label subtitleTrack)
         in case sub_kind subtitleTrack of
              Subtitles \<Rightarrow>
                reportPlaybackMetric thr CLOSED_CAPTIONS_LANGUAGE (StrValue ''off'')
                  (debugLog ''[ ConvivaAnalyticsTracker ] report off closed captions language''
                    (reportPlaybackMetric thr SUBTITLES_LANGUAGE (StrValue formattedSubtitle)
                      (debugLog ''[ ConvivaAnalyticsTracker ] report subtitles language'' s)))
            | Captions \<Rightarrow>
                reportPlaybackMetric thr SUBTITLES_LANGUAGE (StrValue ''off'')
                  (debugLog ''[ ConvivaAnalyticsTracker ] report off subtitles language''
                    (reportPlaybackMetric thr CLOSED_CAPTIONS_LANGUAGE (StrValue formattedSubtitle)
                      (debugLog ''[ ConvivaAnalyticsTracker ] report closed captions language'' s)))
            | OtherKind \<Rightarrow> trackTurnOffSubtitles thr s))"

definition trackInitialSubtitles :: "(sdk_call \<Rightarrow> bool) \<Rightarrow> tracker \<Rightarrow> outcome" where
  "trackInitialSubtitles thr s =
     (if \<not> isSessionActive s then Returns s
      else
        (case player s of
           None \<Rightarrow> Throws PLAYER_NOT_INITIALIZED s
         | Some p \<Rightarrow>
             (case subtitles p of
                None \<Rightarrow> Returns (trackTurnOffSubtitles thr s)
              | Some subs \<Rightarrow>
                  (case filter sub_enabled subs of
                     [track] \<Rightarrow> Returns (trackUpdateSubtitleTrack thr track s)
                   | _ \<Rightarrow> Returns (trackTurnOffSubtitles thr s)))))"

definition trackSeekStart :: "(sdk_call \<Rightarrow> bool) \<Rightarrow> int \<Rightarrow> tracker \<Rightarrow> tracker" where
  "trackSeekStart thr target s =
     (if \<not> isSessionActive s then s
      else reportPlaybackMetric thr SEEK_STARTED (NumValue target)
             (debugLog ''[ ConvivaAnalyticsTracker ] report seek started'' s))"

definition trackSeekEnd :: "(sdk_call \<Rightarrow> bool) \<Rightarrow> tracker \<Rightarrow> tracker" where
  "trackSeekEnd thr s =
     (if \<not> isSessionActive s then s
      else reportPlaybackMetric thr SEEK_ENDED NoValue
             (debugLog ''[ ConvivaAnalyticsTracker ] report seek ended'' s))"

definition trackAdBreakStarted :: "(sdk_call \<Rightarrow> bool) \<Rightarrow> AdType \<Rightarrow> tracker \<Rightarrow> tracker" where
  "trackAdBreakStarted thr type s =
     (if \<not> isSessionActive s then s
      else
        reportAdBreakStarted thr type (if type = CLIENT_SIDE then SEPARATE else CONTENT)
          (debugLog ''[ ConvivaAnalyticsTracker ] report ad break started''
            (s\<lparr>isAdBreakActive := True\<rparr>)))"

definition trackAdBreakFinished :: "(sdk_call \<Rightarrow> bool) \<Rightarrow> tracker \<Rightarrow> outcome" where
  "trackAdBreakFinished thr s =
     (if \<not> isSessionActive s then Returns s
      else
        (let s1 = reportAdBreakEnded thr
                    (debugLog ''[ ConvivaAnalyticsTracker ] report ad break ended''
                      (s\<lparr>isAdBreakActive := False\<rparr>))
         in case player s1 of
              None \<Rightarrow> Throws PLAYER_NOT_INITIALIZED s1
            | Some p \<Rightarrow>
                Returns (reportPlaybackMetric thr PLAYER_STATE (StateValue (getPlayerState p))
                          (debugLog ''[ ConvivaAnalyticsTracker ] report playback state'' s1))))"

definition trackAdStarted :: "(sdk_call \<Rightarrow> bool) \<Rightarrow> AdType \<Rightarrow> nat \<Rightarrow> tracker \<Rightarrow> outcome" where
  "trackAdStarted thr type bitrateKbps s =
     (if \<not> isSessionActive s then Returns s
      else
        (let s1 = reportAdStarted thr (debugLog ''[ ConvivaAnalyticsTracker ] report ad started'' s)
         in case player s1 of
              None \<Rightarrow> Throws PLAYER_NOT_INITIALIZED s1
            | Some p \<Rightarrow>
                (let s2 = reportAdMetric thr PLAYER_STATE (StateValue (getPlayerState p))
                            (debugLog ''[ ConvivaAnalyticsTracker ] report ad playback state'' s1);
                     s3 = (if type = SERVER_SIDE
                           then
                             (let playbackVideoData = getPlaybackVideoData p;
                                  resolution = string_of_nat (width playbackVideoData) @ ''x''
                                               @ string_of_nat (height playbackVideoData);
                                  s2a = reportAdMetric thr RESOLUTION (StrValue resolution)
                                          (debugLog ''[ ConvivaAnalyticsTracker ] report ad resolution'' s2)
                              in if frameRate playbackVideoData \<noteq> 0
                                 then reportAdMetric thr RENDERED_FRAMERATE
                                        (NumValue (int (frameRate playbackVideoData)))
                                        (debugLog ''[ ConvivaAnalyticsTracker ] report framerate'' s2a)
                                 else s2a)
                           else s2);
                     s4 = (if bitrateKbps \<noteq> 0
                           then reportAdMetric thr BITRATE (NumValue (int bitrateKbps))
                                  (debugLog ''[ ConvivaAnalyticsTracker ] report ad bitrate'' s3)
                           else s3)
                 in Returns s4)))"

definition trackAdSkipped :: "(sdk_call \<Rightarrow> bool) \<Rightarrow> tracker \<Rightarrow> tracker" where
  "trackAdSkipped thr s =
     (if \<not> isSessionActive s then s
      else reportAdSkipped thr (debugLog ''[ ConvivaAnalyticsTracker ] report ad skipped'' s))"

definition trackError :: "(sdk_call \<Rightarrow> bool) \<Rightarrow> PlayerEventBase \<Rightarrow> tracker \<Rightarrow> outcome" where
  "trackError thr event s =
     (let s1 = (if \<not> isSessionActive s \<and> \<not> sessionEndedExternally s
                then internalInitializeSession thr s else s)
      in reportPlaybackDeficiency thr (string_of_nat (ev_code event) @ '' '' @ ev_name event) FATAL True
           (debugLog ''[ ConvivaAnalyticsTracker ] report playback deficiency'' s1))"

section \<open>The tracker's own player event handlers\<close>

definition onSourceLoaded :: "tracker \<Rightarrow> tracker" where
  "onSourceLoaded s =
     (let s1 = debugLog ''[ ConvivaAnalyticsTracker ] [ Player Event ] source loaded'' s
      in if \<not> isSessionActive s1 then s1 else updateSession (buildContentMetadata s1))"

definition onPlay :: "(sdk_call \<Rightarrow> bool) \<Rightarrow> tracker \<Rightarrow> outcome" where
  "onPlay thr s =
     (let s0 = debugLog ''[ ConvivaAnalyticsTracker ] [ Player Event ] play'' s
      in if \<not> canTrackPlayEvent s0 then Returns s0
         else
           (let s1 = (if \<not> isSessionActive s0 \<and> \<not> sessionEndedExternally s0
                      then internalInitializeSession thr s0 else s0)
            in if \<not> hasPlayed s1
               then
                 (let s2 = s1\<lparr>hasPlayed := True\<rparr>
                  in case player s2 of
                       None \<Rightarrow> Throws PLAYER_NOT_INITIALIZED s2
                     | Some p \<Rightarrow> trackInitialSubtitles thr (trackUpdateAudioTrack thr (getAudio p) s2))
               else Returns s1))"

definition onPlaying :: "tracker \<Rightarrow> tracker" where
  "onPlaying s =
     (let s1 = debugLog ''[ ConvivaAnalyticsTracker ] [ Player Event ] playing'' s
      in if \<not> isSessionActive s1 then s1
         else updateSession
                (s1\<lparr>contentMetadataBuilder := (contentMetadataBuilder s1)\<lparr>playbackStarted := True\<rparr>\<rparr>))"

definition onPlaybackFinished :: "tracker \<Rightarrow> outcome" where
  "onPlaybackFinished s =
     (let s1 = debugLog ''[ ConvivaAnalyticsTracker ] [ Player Event ] playback finished'' s
      in if \<not> isSessionActive s1 then Returns s1
         else
           (let s2 = (sdk_record VideoRelease s1)\<lparr>convivaVideoAnalytics := None\<rparr>
            in case convivaAdAnalytics s2 of
                 None \<Rightarrow> Throws ''TypeError'' s2
               | Some h \<Rightarrow> Returns ((sdk_record AdRelease s2)\<lparr>convivaAdAnalytics := None\<rparr>)))"

definition onSourceUnloaded :: "tracker \<Rightarrow> outcome" where
  "onSourceUnloaded s =
     (let s1 = debugLog ''[ ConvivaAnalyticsTracker ] [ Player Event ] source unloaded'' s
      in if isAdBreakActive s1 then Returns s1 else internalEndSession s1)"


section \<open>The ad-ended wrapper\<close>

text \<open>
  \<^verbatim>\<open>reportAdEnded() { try { this.reportAdEnded(); } catch (error) { this.debugLog(..., error); } }\<close>:
  the body calls the wrapper itself, not the ad analytics handle. The recursion has no
  base case, so it runs until the call stack is exhausted: the call that finds no free
  frame throws a RangeError, inside the \<^verbatim>\<open>try\<close> of the frame that made it. The first
  argument is the number of free frames when the wrapper is called. A call needs one
  frame; so does the \<open>debugLog\<close> call in the catch, and when not even that one is free
  the RangeError leaves the catch and reaches the \<^verbatim>\<open>try\<close> of the frame above. Every other
  method uses a bounded number of frames, which are taken to be free.
\<close>

fun reportAdEnded :: "nat \<Rightarrow> tracker \<Rightarrow> outcome" where
  "reportAdEnded 0 s = Throws ''RangeError'' s"
| "reportAdEnded (Suc frames) s =
     (case reportAdEnded frames s of
        Returns s' \<Rightarrow> Returns s'
      | Throws m s' \<Rightarrow>
          (if frames = 0 then Throws ''RangeError'' s'
           else Returns (debugLog ''[ ConvivaAnalyticsTracker ] error @ reportAdEnded'' s')))"

definition trackAdFinished :: "nat \<Rightarrow> tracker \<Rightarrow> outcome" where
  "trackAdFinished frames s =
     (if \<not> isSessionActive s then Returns s
      else reportAdEnded frames (debugLog ''[ ConvivaAnalyticsTracker ] report ad ended'' s))"

section \<open>Server-side ad insertion facade\<close>

record ConvivaAnalyticsSsai =
  convivaAnalyticsTracker :: tracker
  ssai_isAdBreakActive :: bool

definition ssai_reset :: "ConvivaAnalyticsSsai \<Rightarrow> ConvivaAnalyticsSsai" where
  "ssai_reset x = x\<lparr>ssai_isAdBreakActive := False\<rparr>"

definition ssai_reportAdBreakStarted :: "(sdk_call \<Rightarrow> bool) \<Rightarrow> ConvivaAnalyticsSsai \<Rightarrow> ConvivaAnalyticsSsai" where
  "ssai_reportAdBreakStarted thr x =
     (if isAdBreakActive (convivaAnalyticsTracker x) \<or> ssai_isAdBreakActive x then x
      else x\<lparr>ssai_isAdBreakActive := True,
             convivaAnalyticsTracker := trackAdBreakStarted thr SERVER_SIDE (convivaAnalyticsTracker x)\<rparr>)"

text \<open>The facade after \<open>reportAdBreakFinished\<close>, with the message of an exception that left it.\<close>

definition ssai_reportAdBreakFinished ::
    "(sdk_call \<Rightarrow> bool) \<Rightarrow> ConvivaAnalyticsSsai \<Rightarrow> ConvivaAnalyticsSsai \<times> string option" where
  "ssai_reportAdBreakFinished thr x =
     (if \<not> ssai_isAdBreakActive x then (x, None)
      else
        (case trackAdBreakFinished thr (convivaAnalyticsTracker x) of
           Returns s' \<Rightarrow> (x\<lparr>ssai_isAdBreakActive := False, convivaAnalyticsTracker := s'\<rparr>, None)
         | Throws m s' \<Rightarrow> (x\<lparr>ssai_isAdBreakActive := False, convivaAnalyticsTracker := s'\<rparr>, Some m)))"

text \<open>The player-driven (client-side) entry point: the \<open>onAdBreakStarted\<close> handler of the integration.\<close>

definition csai_onAdBreakStarted :: "(sdk_call \<Rightarrow> bool) \<Rightarrow> ConvivaAnalyticsSsai \<Rightarrow> ConvivaAnalyticsSsai" where
  "csai_onAdBreakStarted thr x =
     x\<lparr>convivaAnalyticsTracker := trackAdBreakStarted thr CLIENT_SIDE (convivaAnalyticsTracker x)\<rparr>"

section \<open>Event dispatch and runs\<close>

text \<open>
  A player event reaches the handlers registered for it, in the order of registration:
  the tracker registers its own handlers in \<open>attachPlayer\<close>, before the integration
  registers those of \<^verbatim>\<open>ConvivaAnalytics.ts\<close>. Without an attached player no handler
  exists. The integration's own debug lines are left out, and so are the events whose
  handlers only format strings (ad errors, quality changes, mute, view mode, cast). The
  handler of \<open>AdFinished\<close> is \<open>trackAdFinished\<close>, a call of its own among the actions.
\<close>

definition integration_onPlay :: "(sdk_call \<Rightarrow> bool) \<Rightarrow> PlayerEventBase \<Rightarrow> tracker \<Rightarrow> outcome" where
  "integration_onPlay thr event s =
     (if \<not> canTrackPlayEvent s then Returns s else trackPlaybackStateChanged thr event s)"

definition dispatch :: "(sdk_call \<Rightarrow> bool) \<Rightarrow> PlayerEventBase \<Rightarrow> tracker \<Rightarrow> outcome" where
  "dispatch thr event s =
     (if \<not> isPlayerAttached s then Returns s
      else
        (case ev_type event of
           Play \<Rightarrow> and_then (onPlay thr s) (integration_onPlay thr event)
         | Playing \<Rightarrow> trackPlaybackStateChanged thr event (onPlaying s)
         | Paused \<Rightarrow> trackPlaybackStateChanged thr event s
         | StallStarted \<Rightarrow> trackPlaybackStateChanged thr event s
         | StallEnded \<Rightarrow> trackPlaybackStateChanged thr event s
         | PlaybackFinished \<Rightarrow> and_then (onPlaybackFinished s) (trackPlaybackStateChanged thr event)
         | Seek \<Rightarrow> trackPlaybackStateChanged thr event (trackSeekStart thr (ev_seekTarget event) s)
         | Seeked \<Rightarrow> trackPlaybackStateChanged thr event (trackSeekEnd thr s)
         | TimeShift \<Rightarrow> trackPlaybackStateChanged thr event (trackSeekStart thr (- 1) s)
         | TimeShifted \<Rightarrow> trackPlaybackStateChanged thr event (trackSeekEnd thr s)
         | SourceLoaded \<Rightarrow> Returns (onSourceLoaded s)
         | SourceUnloaded \<Rightarrow> onSourceUnloaded s
         | AdBreakStarted \<Rightarrow> Returns (trackAdBreakStarted thr CLIENT_SIDE s)
         | AdBreakFinished \<Rightarrow> trackAdBreakFinished thr s
         | AdStarted \<Rightarrow> trackAdStarted thr CLIENT_SIDE (ev_bitrate event) s
         | AdSkipped \<Rightarrow> Returns (sendCustomPlaybackEvent thr ''adskipped'' (trackAdSkipped thr s))
         | Error \<Rightarrow> trackError thr event s
         | Destroy \<Rightarrow> release thr True s))"

text \<open>
  What can happen to a tracker: the player fires an event, the application calls a
  public method, the attached player's observable state changes, or time passes.
\<close>

datatype action =
  Fires PlayerEventBase
  | CallInitializeSession
  | CallEndSession
  | CallUpdateContentMetadata "string option"
  | CallAttachPlayer PlayerAPI
  | CallTrackAdBreakStarted AdType
  | CallTrackAdBreakFinished
  | CallTrackAdStarted AdType nat
  | CallTrackAdSkipped
  | CallTrackAdFinished nat
  | CallSendCustomPlaybackEvent string
  | CallSendCustomApplicationEvent string
  | CallPauseTracking
  | CallResumeTracking
  | CallRelease bool
  | CallReportPlaybackDeficiency string ErrorSeverity bool
  | PlayerBecomes PlayerAPI
  | TimePasses nat

definition step :: "(sdk_call \<Rightarrow> bool) \<Rightarrow> action \<Rightarrow> tracker \<Rightarrow> outcome" where
  "step thr a s =
     (case a of
        Fires event \<Rightarrow> dispatch thr event s
      | CallInitializeSession \<Rightarrow> initializeSession thr s
      | CallEndSession \<Rightarrow> endSession thr s
      | CallUpdateContentMetadata ov \<Rightarrow> Returns (updateContentMetadata ov s)
      | CallAttachPlayer p \<Rightarrow> Returns (attachPlayer p s)
      | CallTrackAdBreakStarted type \<Rightarrow> Returns (trackAdBreakStarted thr type s)
      | CallTrackAdBreakFinished \<Rightarrow> trackAdBreakFinished thr s
      | CallTrackAdStarted type bitrateKbps \<Rightarrow> trackAdStarted thr type bitrateKbps s
      | CallTrackAdSkipped \<Rightarrow> Returns (trackAdSkipped thr s)
      | CallTrackAdFinished frames \<Rightarrow> trackAdFinished frames s
      | CallSendCustomPlaybackEvent eventName \<Rightarrow> Returns (sendCustomPlaybackEvent thr eventName s)
      | CallSendCustomApplicationEvent eventName \<Rightarrow> Returns (sendCustomApplicationEvent thr eventName s)
      | CallPauseTracking \<Rightarrow> Returns (pauseTracking thr s)
      | CallResumeTracking \<Rightarrow> Returns (resumeTracking thr s)
      | CallRelease isPlayerDestroyed \<Rightarrow> release thr isPlayerDestroyed s
      | CallReportPlaybackDeficiency message severity e \<Rightarrow> reportPlaybackDeficiency thr message severity e s
      | PlayerBecomes p \<Rightarrow> Returns (if isPlayerAttached s then s\<lparr>player := Some p\<rparr> else s)
      | TimePasses d \<Rightarrow> Returns (elapse thr d s))"

text \<open>A run: an exception goes to the caller, the tracker keeps the state it had at the throw.\<close>

fun run :: "(sdk_call \<Rightarrow> bool) \<Rightarrow> action list \<Rightarrow> tracker \<Rightarrow> tracker" where
  "run thr [] s = s"
| "run thr (a # as) s = run thr as (state_of (step thr a s))"

definition event :: "PlayerEvent \<Rightarrow> PlayerEventBase" where
  "event t = \<lparr>ev_type = t, ev_seekTarget = 0, ev_code = 0, ev_name = [], ev_bitrate = 0\<rparr>"


section \<open>Definitions used by the statements\<close>

text \<open>
  The trace property of the startup baseline: a session starts with \<open>BuildVideoAnalytics\<close>,
  and within each session a STOPPED player state is reported before any PLAYING one
  (on the content stream or on the ad stream). The flag says whether STOPPED has been
  reported since the session began.
\<close>

definition is_playing_metric :: "sdk_call \<Rightarrow> bool" where
  "is_playing_metric c =
     (c = VideoReportPlaybackMetric PLAYER_STATE (StateValue PLAYING)
      \<or> c = AdReportAdMetric PLAYER_STATE (StateValue PLAYING))"

fun stopped_seen :: "bool \<Rightarrow> sdk_call list \<Rightarrow> bool" where
  "stopped_seen b [] = b"
| "stopped_seen b (c # cs) =
     (if c = BuildVideoAnalytics then stopped_seen False cs
      else if c = VideoReportPlaybackMetric PLAYER_STATE (StateValue STOPPED) then stopped_seen True cs
      else stopped_seen b cs)"

fun stopped_before_playing :: "bool \<Rightarrow> sdk_call list \<Rightarrow> bool" where
  "stopped_before_playing b [] = True"
| "stopped_before_playing b (c # cs) =
     (if c = BuildVideoAnalytics then stopped_before_playing False cs
      else if c = VideoReportPlaybackMetric PLAYER_STATE (StateValue STOPPED)
      then stopped_before_playing True cs
      else if is_playing_metric c then b \<and> stopped_before_playing b cs
      else stopped_before_playing b cs)"

text \<open>The builder after \<open>buildContentMetadata\<close>, given the source of the attached player.\<close>

fun builder_with_source :: "SourceConfig option \<Rightarrow> ContentMetadataBuilder \<Rightarrow> ContentMetadataBuilder" where
  "builder_with_source None b = b"
| "builder_with_source (Some source) b = b\<lparr>metadata_assetName := Some (getAssetNameFromSource source)\<rparr>"

text \<open>What holds of every tracker a run can reach from a new tracker.\<close>

definition reachable_inv :: "tracker \<Rightarrow> bool" where
  "reachable_inv s =
     (stopped_before_playing False (sdk_calls s)
      \<and> (if convivaVideoAnalytics s = None then convivaAdAnalytics s = None
         else convivaAdAnalytics s \<noteq> None \<and> stopped_seen False (sdk_calls s)))"

text \<open>Player snapshots and runs for the concrete instances below.\<close>

definition idle_player :: PlayerAPI where
  "idle_player =
     \<lparr>isPlaying = False, isPaused = True, isStalled = False, getSource = None,
      getAudio = \<lparr>audio_lang = ''en'', audio_label = ''English''\<rparr>, subtitles = None,
      getPlaybackVideoData = \<lparr>width = 1280, height = 720, frameRate = 25\<rparr>\<rparr>"

definition loaded_player :: PlayerAPI where
  "loaded_player = idle_player\<lparr>getSource := Some \<lparr>title = Some ''Asset Title''\<rparr>\<rparr>"

definition playing_player :: PlayerAPI where
  "playing_player = loaded_player\<lparr>isPlaying := True, isPaused := False\<rparr>"

definition never_throws :: "sdk_call \<Rightarrow> bool" where
  "never_throws c = False"

definition playing_run :: "action list" where
  "playing_run =
     [CallAttachPlayer idle_player, PlayerBecomes loaded_player, Fires (event Play),
      PlayerBecomes playing_player, Fires (event Playing)]"

definition playing_tracker :: tracker where
  "playing_tracker = run never_throws playing_run (new_tracker False)"

definition ad_break_tracker :: tracker where
  "ad_break_tracker =
     run never_throws (playing_run @ [Fires (event AdBreakStarted)]) (new_tracker False)"



definition paused_player :: PlayerAPI where
  "paused_player = loaded_player\<lparr>isPlaying := False, isPaused := True\<rparr>"

definition playing_integration :: ConvivaAnalyticsSsai where
  "playing_integration = \<lparr>convivaAnalyticsTracker = playing_tracker, ssai_isAdBreakActive = False\<rparr>"

fun count_ad_break_started :: "sdk_call list \<Rightarrow> nat" where
  "count_ad_break_started [] = 0"
| "count_ad_break_started (c # cs) =
     (case c of VideoReportAdBreakStarted t pl \<Rightarrow> Suc (count_ad_break_started cs)
      | _ \<Rightarrow> count_ad_break_started cs)"



definition always_throws :: "sdk_call \<Rightarrow> bool" where
  "always_throws c = True"

definition logging_tracker :: tracker where
  "logging_tracker = playing_tracker\<lparr>debugLoggingEnabled := True\<rparr>"

definition named_tracker :: tracker where
  "named_tracker = updateContentMetadata (Some ''MyAsset'') (new_tracker False)"

section \<open>Frame lemmas\<close>

lemma debugLog_fields [simp]:
  "player (debugLog m s) = player s"
  "debugLoggingEnabled (debugLog m s) = debugLoggingEnabled s"
  "contentMetadataBuilder (debugLog m s) = contentMetadataBuilder s"
  "convivaVideoAnalytics (debugLog m s) = convivaVideoAnalytics s"
  "convivaAdAnalytics (debugLog m s) = convivaAdAnalytics s"
  "sessionKey (debugLog m s) = sessionKey s"
  "isAdBreakActive (debugLog m s) = isAdBreakActive s"
  "hasPlayed (debugLog m s) = hasPlayed s"
  "sessionEndedExternally (debugLog m s) = sessionEndedExternally s"
  "stallTrackingTimeout (debugLog m s) = stallTrackingTimeout s"
  "sdk_next (debugLog m s) = sdk_next s"
  "sdk_calls (debugLog m s) = sdk_calls s"
  by (simp_all add: debugLog_def)

lemma consoleLog_fields [simp]:
  "player (consoleLog m lvl s) = player s"
  "debugLoggingEnabled (consoleLog m lvl s) = debugLoggingEnabled s"
  "contentMetadataBuilder (consoleLog m lvl s) = contentMetadataBuilder s"
  "convivaVideoAnalytics (consoleLog m lvl s) = convivaVideoAnalytics s"
  "convivaAdAnalytics (consoleLog m lvl s) = convivaAdAnalytics s"
  "sessionKey (consoleLog m lvl s) = sessionKey s"
  "isAdBreakActive (consoleLog m lvl s) = isAdBreakActive s"
  "hasPlayed (consoleLog m lvl s) = hasPlayed s"
  "sessionEndedExternally (consoleLog m lvl s) = sessionEndedExternally s"
  "stallTrackingTimeout (consoleLog m lvl s) = stallTrackingTimeout s"
  "sdk_next (consoleLog m lvl s) = sdk_next s"
  "sdk_calls (consoleLog m lvl s) = sdk_calls s"
  by (simp_all add: consoleLog_def)

lemma sdk_record_fields [simp]:
  "player (sdk_record c s) = player s"
  "debugLoggingEnabled (sdk_record c s) = debugLoggingEnabled s"
  "contentMetadataBuilder (sdk_record c s) = contentMetadataBuilder s"
  "convivaVideoAnalytics (sdk_record c s) = convivaVideoAnalytics s"
  "convivaAdAnalytics (sdk_record c s) = convivaAdAnalytics s"
  "sessionKey (sdk_record c s) = sessionKey s"
  "isAdBreakActive (sdk_record c s) = isAdBreakActive s"
  "hasPlayed (sdk_record c s) = hasPlayed s"
  "sessionEndedExternally (sdk_record c s) = sessionEndedExternally s"
  "stallTrackingTimeout (sdk_record c s) = stallTrackingTimeout s"
  "sdk_next (sdk_record c s) = sdk_next s"
  "logs (sdk_record c s) = logs s"
  "sdk_calls (sdk_record c s) = sdk_calls s @ [c]"
  by (simp_all add: sdk_record_def)

lemma try_sdk_fields [simp]:
  "player (try_sdk thr h c lbl s) = player s"
  "debugLoggingEnabled (try_sdk thr h c lbl s) = debugLoggingEnabled s"
  "contentMetadataBuilder (try_sdk thr h c lbl s) = contentMetadataBuilder s"
  "convivaVideoAnalytics (try_sdk thr h c lbl s) = convivaVideoAnalytics s"
  "convivaAdAnalytics (try_sdk thr h c lbl s) = convivaAdAnalytics s"
  "sessionKey (try_sdk thr h c lbl s) = sessionKey s"
  "isAdBreakActive (try_sdk thr h c lbl s) = isAdBreakActive s"
  "hasPlayed (try_sdk thr h c lbl s) = hasPlayed s"
  "sessionEndedExternally (try_sdk thr h c lbl s) = sessionEndedExternally s"
  "stallTrackingTimeout (try_sdk thr h c lbl s) = stallTrackingTimeout s"
  "sdk_next (try_sdk thr h c lbl s) = sdk_next s"
  "sdk_calls (try_sdk thr h c lbl s) = sdk_calls s @ (case h of None \<Rightarrow> [] | Some x \<Rightarrow> [c])"
  by (simp_all add: try_sdk_def split: option.split)

lemmas wrapper_defs =
  reportPlaybackMetric_def reportAppEvent_def reportPlaybackEnded_def reportPlaybackFailed_def
  reportPlaybackEvent_def reportAdBreakStarted_def reportAdBreakEnded_def reportPlaybackRequested_def
  reportAdMetric_def reportAdSkipped_def reportAdStarted_def reportAdError_def

lemma isSessionActive_frame [simp]:
  "isSessionActive (debugLog m s) = isSessionActive s"
  "isSessionActive (consoleLog m lvl s) = isSessionActive s"
  "isSessionActive (sdk_record c s) = isSessionActive s"
  "isSessionActive (try_sdk thr h c lbl s) = isSessionActive s"
  by (simp_all add: isSessionActive_def)

lemma isPlayerAttached_frame [simp]:
  "isPlayerAttached (debugLog m s) = isPlayerAttached s"
  "isPlayerAttached (consoleLog m lvl s) = isPlayerAttached s"
  "isPlayerAttached (sdk_record c s) = isPlayerAttached s"
  "isPlayerAttached (try_sdk thr h c lbl s) = isPlayerAttached s"
  by (simp_all add: isPlayerAttached_def)

lemma buildContentMetadata_fields [simp]:
  "player (buildContentMetadata s) = player s"
  "debugLoggingEnabled (buildContentMetadata s) = debugLoggingEnabled s"
  "convivaVideoAnalytics (buildContentMetadata s) = convivaVideoAnalytics s"
  "convivaAdAnalytics (buildContentMetadata s) = convivaAdAnalytics s"
  "sessionKey (buildContentMetadata s) = sessionKey s"
  "isAdBreakActive (buildContentMetadata s) = isAdBreakActive s"
  "hasPlayed (buildContentMetadata s) = hasPlayed s"
  "sessionEndedExternally (buildContentMetadata s) = sessionEndedExternally s"
  "stallTrackingTimeout (buildContentMetadata s) = stallTrackingTimeout s"
  "sdk_next (buildContentMetadata s) = sdk_next s"
  "sdk_calls (buildContentMetadata s) = sdk_calls s"
  "isSessionActive (buildContentMetadata s) = isSessionActive s"
  "isPlayerAttached (buildContentMetadata s) = isPlayerAttached s"
  by (simp_all add: buildContentMetadata_def isSessionActive_def isPlayerAttached_def split: option.split)

lemma buildContentMetadata_builder [simp]:
  "contentMetadataBuilder (buildContentMetadata s) =
     builder_with_source (player_source s) (contentMetadataBuilder s)"
  by (simp add: buildContentMetadata_def player_source_def split: option.split)

lemma player_source_frame [simp]:
  "player_source (debugLog m s) = player_source s"
  "player_source (consoleLog m lvl s) = player_source s"
  "player_source (sdk_record c s) = player_source s"
  "player_source (try_sdk thr h c lbl s) = player_source s"
  by (simp_all add: player_source_def)

lemma setPlayerInfo_fields [simp]:
  "player (setPlayerInfo s) = player s"
  "debugLoggingEnabled (setPlayerInfo s) = debugLoggingEnabled s"
  "contentMetadataBuilder (setPlayerInfo s) = contentMetadataBuilder s"
  "convivaVideoAnalytics (setPlayerInfo s) = convivaVideoAnalytics s"
  "convivaAdAnalytics (setPlayerInfo s) = convivaAdAnalytics s"
  "sessionKey (setPlayerInfo s) = sessionKey s"
  "isAdBreakActive (setPlayerInfo s) = isAdBreakActive s"
  "hasPlayed (setPlayerInfo s) = hasPlayed s"
  "sessionEndedExternally (setPlayerInfo s) = sessionEndedExternally s"
  "stallTrackingTimeout (setPlayerInfo s) = stallTrackingTimeout s"
  "sdk_next (setPlayerInfo s) = sdk_next s"
  "logs (setPlayerInfo s) = logs s"
  "sdk_calls (setPlayerInfo s) =
     sdk_calls s @ (if convivaVideoAnalytics s = None \<or> convivaAdAnalytics s = None \<or> \<not> isPlayerAttached s
                    then [] else [VideoSetPlayerInfo, AdSetAdPlayerInfo])"
  by (simp_all add: setPlayerInfo_def)

lemma internalInitializeSession_fields [simp]:
  "player (internalInitializeSession thr s) = player s"
  "debugLoggingEnabled (internalInitializeSession thr s) = debugLoggingEnabled s"
  "isAdBreakActive (internalInitializeSession thr s) = isAdBreakActive s"
  "hasPlayed (internalInitializeSession thr s) = hasPlayed s"
  "sessionEndedExternally (internalInitializeSession thr s) = sessionEndedExternally s"
  "stallTrackingTimeout (internalInitializeSession thr s) = stallTrackingTimeout s"
  "convivaVideoAnalytics (internalInitializeSession thr s) = Some (sdk_next s)"
  "convivaAdAnalytics (internalInitializeSession thr s) = Some (Suc (sdk_next s))"
  "contentMetadataBuilder (internalInitializeSession thr s) =
     builder_with_source (player_source s) (contentMetadataBuilder s)"
  by (simp_all add: internalInitializeSession_def Let_def wrapper_defs isSessionActive_def)

lemma player_source_internalInitializeSession [simp]:
  "player_source (internalInitializeSession thr s) = player_source s"
  by (simp add: player_source_def)

lemma internalInitializeSession_calls:
  "sdk_calls (internalInitializeSession thr s) =
     sdk_calls s @
       [BuildVideoAnalytics, BuildAdAnalytics,
        VideoReportPlaybackRequested
          (builder_build (builder_with_source (player_source s) (contentMetadataBuilder s))),
        VideoGetSessionId] @
       (if isPlayerAttached s then [VideoSetPlayerInfo, AdSetAdPlayerInfo] else []) @
       [VideoReportPlaybackMetric PLAYER_STATE (StateValue STOPPED), VideoSetCallback]"
  by (simp add: internalInitializeSession_def Let_def wrapper_defs isSessionActive_def isPlayerAttached_def)

lemma internalInitializeSession_active [simp]:
  "isSessionActive (internalInitializeSession thr s)"
  "isPlayerAttached (internalInitializeSession thr s) = isPlayerAttached s"
  by (simp_all add: isSessionActive_def isPlayerAttached_def)


section \<open>Session initialization\<close>

lemma initializeSession_Returns_active:
  "initializeSession thr s = Returns s1 \<Longrightarrow> isSessionActive s1"
  by (auto simp: initializeSession_def isSessionActive_def split: if_splits)

lemma named_tracker_init:
  "initializeSession never_throws named_tracker =
     Returns ((internalInitializeSession never_throws named_tracker)\<lparr>sessionEndedExternally := False\<rparr>)"
  by (simp add: initializeSession_def named_tracker_def updateContentMetadata_def
      internalUpdateContentMetadata_def new_tracker_def new_builder_def builder_setOverrides_def
      isSessionActive_def isPlayerAttached_def builder_assetName_def consoleLog_def Let_def)

text \<open>
  C4. Calling \<open>initializeSession()\<close> twice in a row, with no \<open>endSession()\<close> between,
  gives exactly one session: when the first call returns, the second call returns the
  tracker it was given with one warning line added to the console log, so it changes no
  field of the tracker and makes no call on the SDK.
\<close>

theorem initializeSession_twice_one_session:
  assumes "initializeSession thr s = Returns s1"
  shows "initializeSession thr s1 =
           Returns (s1\<lparr>logs := logs s1 @
             [ConsoleLog LOG_WARNING ''[ ConvivaAnalyticsTracker ] There is already a session running.'']\<rparr>)"
  using initializeSession_Returns_active [OF assms]
  by (simp add: initializeSession_def consoleLog_def)

theorem initializeSession_twice_one_session_witness:
  "initializeSession never_throws
     ((internalInitializeSession never_throws named_tracker)\<lparr>sessionEndedExternally := False\<rparr>) =
   Returns ((internalInitializeSession never_throws named_tracker)
     \<lparr>sessionEndedExternally := False,
      logs := logs (internalInitializeSession never_throws named_tracker) @
        [ConsoleLog LOG_WARNING ''[ ConvivaAnalyticsTracker ] There is already a session running.'']\<rparr>)"
  using initializeSession_twice_one_session [OF named_tracker_init] by simp





section \<open>What every reachable tracker satisfies\<close>

lemma stopped_seen_append [simp]:
  "stopped_seen b (xs @ ys) = stopped_seen (stopped_seen b xs) ys"
  by (induction xs arbitrary: b) simp_all

lemma stopped_before_playing_append [simp]:
  "stopped_before_playing b (xs @ ys) =
     (stopped_before_playing b xs \<and> stopped_before_playing (stopped_seen b xs) ys)"
  by (induction xs arbitrary: b) auto

lemma reachable_inv_logs [simp]:
  "reachable_inv (debugLog m s) = reachable_inv s"
  "reachable_inv (consoleLog m lvl s) = reachable_inv s"
  by (simp_all add: reachable_inv_def)

lemma reachable_inv_updates [simp]:
  "reachable_inv (s\<lparr>isAdBreakActive := b\<rparr>) = reachable_inv s"
  "reachable_inv (s\<lparr>hasPlayed := b\<rparr>) = reachable_inv s"
  "reachable_inv (s\<lparr>sessionEndedExternally := b\<rparr>) = reachable_inv s"
  "reachable_inv (s\<lparr>stallTrackingTimeout := t\<rparr>) = reachable_inv s"
  "reachable_inv (s\<lparr>contentMetadataBuilder := cb\<rparr>) = reachable_inv s"
  "reachable_inv (s\<lparr>player := pl\<rparr>) = reachable_inv s"
  "reachable_inv (s\<lparr>logs := lg\<rparr>) = reachable_inv s"
  by (simp_all add: reachable_inv_def)

lemma reachable_inv_record:
  "reachable_inv s \<Longrightarrow> c \<noteq> BuildVideoAnalytics \<Longrightarrow> \<not> is_playing_metric c \<Longrightarrow>
   reachable_inv (sdk_record c s)"
  by (auto simp: reachable_inv_def split: if_splits)

lemma reachable_inv_try_video:
  "reachable_inv s \<Longrightarrow> c \<noteq> BuildVideoAnalytics \<Longrightarrow>
   reachable_inv (try_sdk thr (convivaVideoAnalytics s) c lbl s)"
  by (auto simp: reachable_inv_def try_sdk_def split: if_splits option.splits)

lemma reachable_inv_try_ad:
  "reachable_inv s \<Longrightarrow> c \<noteq> BuildVideoAnalytics \<Longrightarrow>
   reachable_inv (try_sdk thr (convivaAdAnalytics s) c lbl s)"
  by (auto simp: reachable_inv_def try_sdk_def split: if_splits option.splits)

lemma reachable_inv_wrappers [simp]:
  "reachable_inv s \<Longrightarrow> reachable_inv (reportPlaybackMetric thr k v s)"
  "reachable_inv s \<Longrightarrow> reachable_inv (reportAppEvent thr n s)"
  "reachable_inv s \<Longrightarrow> reachable_inv (reportPlaybackEnded thr s)"
  "reachable_inv s \<Longrightarrow> reachable_inv (reportPlaybackFailed thr n s)"
  "reachable_inv s \<Longrightarrow> reachable_inv (reportPlaybackEvent thr n s)"
  "reachable_inv s \<Longrightarrow> reachable_inv (reportAdBreakStarted thr ty pl s)"
  "reachable_inv s \<Longrightarrow> reachable_inv (reportAdBreakEnded thr s)"
  "reachable_inv s \<Longrightarrow> reachable_inv (reportPlaybackRequested thr s)"
  "reachable_inv s \<Longrightarrow> reachable_inv (reportAdMetric thr k v s)"
  "reachable_inv s \<Longrightarrow> reachable_inv (reportAdSkipped thr s)"
  "reachable_inv s \<Longrightarrow> reachable_inv (reportAdStarted thr s)"
  "reachable_inv s \<Longrightarrow> reachable_inv (reportAdError thr n sev s)"
  unfolding wrapper_defs
  by (simp_all add: reachable_inv_try_video reachable_inv_try_ad)

lemma reachable_inv_buildContentMetadata [simp]:
  "reachable_inv (buildContentMetadata s) = reachable_inv s"
  by (simp add: reachable_inv_def)

lemma reachable_inv_setPlayerInfo [simp]:
  "reachable_inv s \<Longrightarrow> reachable_inv (setPlayerInfo s)"
  by (simp add: setPlayerInfo_def reachable_inv_record is_playing_metric_def)

lemma reachable_inv_updateSession [simp]:
  "reachable_inv s \<Longrightarrow> reachable_inv (updateSession s)"
  by (simp add: updateSession_def reachable_inv_record is_playing_metric_def)

lemma reachable_inv_internalInitializeSession [simp]:
  "reachable_inv s \<Longrightarrow> reachable_inv (internalInitializeSession thr s)"
  by (simp add: reachable_inv_def internalInitializeSession_calls is_playing_metric_def)

lemma reachable_inv_internalEndSession [simp]:
  "reachable_inv s \<Longrightarrow> reachable_inv (state_of (internalEndSession s))"
  by (auto simp: internalEndSession_def Let_def reachable_inv_def isSessionActive_def is_playing_metric_def
      split: option.splits if_splits)

lemma reachable_inv_onPlaybackFinished [simp]:
  "reachable_inv s \<Longrightarrow> reachable_inv (state_of (onPlaybackFinished s))"
  by (auto simp: onPlaybackFinished_def Let_def reachable_inv_def isSessionActive_def is_playing_metric_def
      split: option.splits if_splits)

lemma state_of_and_then:
  "(\<And>s'. P s' \<Longrightarrow> P (state_of (f s'))) \<Longrightarrow> P (state_of x) \<Longrightarrow> P (state_of (and_then x f))"
  by (cases x) simp_all

lemma reachable_inv_initializeSession [simp]:
  "reachable_inv s \<Longrightarrow> reachable_inv (state_of (initializeSession thr s))"
  by (simp add: initializeSession_def)

lemma reachable_inv_ensurePlaybackFinished [simp]:
  "reachable_inv s \<Longrightarrow> reachable_inv (ensurePlaybackFinished thr s)"
  by (simp add: ensurePlaybackFinished_def Let_def)

lemma reachable_inv_endSession [simp]:
  "reachable_inv s \<Longrightarrow> reachable_inv (state_of (endSession thr s))"
  by (simp add: endSession_def state_of_and_then)

lemma reachable_inv_trackPlaybackStateChanged [simp]:
  "reachable_inv s \<Longrightarrow> reachable_inv (state_of (trackPlaybackStateChanged thr e s))"
  by (simp add: trackPlaybackStateChanged_def Let_def timeout_start_def timeout_clear_def
      split: option.split)

lemma reachable_inv_subtitles [simp]:
  "reachable_inv s \<Longrightarrow> reachable_inv (trackUpdateAudioTrack thr a s)"
  "reachable_inv s \<Longrightarrow> reachable_inv (trackTurnOffSubtitles thr s)"
  "reachable_inv s \<Longrightarrow> reachable_inv (trackSeekStart thr tg s)"
  "reachable_inv s \<Longrightarrow> reachable_inv (trackSeekEnd thr s)"
  "reachable_inv s \<Longrightarrow> reachable_inv (trackAdBreakStarted thr ty s)"
  "reachable_inv s \<Longrightarrow> reachable_inv (state_of (trackAdBreakFinished thr s))"
  "reachable_inv s \<Longrightarrow> reachable_inv (state_of (trackAdStarted thr ty kbps s))"
  "reachable_inv s \<Longrightarrow> reachable_inv (trackAdSkipped thr s)"
  "reachable_inv s \<Longrightarrow> reachable_inv (sendCustomPlaybackEvent thr n s)"
  "reachable_inv s \<Longrightarrow> reachable_inv (sendCustomApplicationEvent thr n s)"
  "reachable_inv s \<Longrightarrow> reachable_inv (pauseTracking thr s)"
  "reachable_inv s \<Longrightarrow> reachable_inv (resumeTracking thr s)"
  by (simp_all add: trackUpdateAudioTrack_def trackTurnOffSubtitles_def trackSeekStart_def
      trackSeekEnd_def trackAdBreakStarted_def trackAdBreakFinished_def trackAdStarted_def
      trackAdSkipped_def sendCustomPlaybackEvent_def sendCustomApplicationEvent_def
      pauseTracking_def resumeTracking_def Let_def split: option.split)

lemma reachable_inv_trackUpdateSubtitleTrack [simp]:
  "reachable_inv s \<Longrightarrow> reachable_inv (trackUpdateSubtitleTrack thr t s)"
  by (simp add: trackUpdateSubtitleTrack_def Let_def split: SubtitleKind.split)

lemma reachable_inv_trackInitialSubtitles [simp]:
  "reachable_inv s \<Longrightarrow> reachable_inv (state_of (trackInitialSubtitles thr s))"
  by (simp add: trackInitialSubtitles_def split: option.split list.split)

lemma reachable_inv_onPlay [simp]:
  "reachable_inv s \<Longrightarrow> reachable_inv (state_of (onPlay thr s))"
  by (simp add: onPlay_def Let_def split: option.split)

lemma reachable_inv_handlers [simp]:
  "reachable_inv s \<Longrightarrow> reachable_inv (onPlaying s)"
  "reachable_inv s \<Longrightarrow> reachable_inv (onSourceLoaded s)"
  "reachable_inv s \<Longrightarrow> reachable_inv (state_of (onSourceUnloaded s))"
  "reachable_inv s \<Longrightarrow> reachable_inv (state_of (integration_onPlay thr e s))"
  by (simp_all add: onPlaying_def onSourceLoaded_def onSourceUnloaded_def integration_onPlay_def Let_def)

lemma reachable_inv_reportPlaybackDeficiency [simp]:
  "reachable_inv s \<Longrightarrow> reachable_inv (state_of (reportPlaybackDeficiency thr m sev e s))"
  by (simp add: reportPlaybackDeficiency_def Let_def)

lemma reachable_inv_trackError [simp]:
  "reachable_inv s \<Longrightarrow> reachable_inv (state_of (trackError thr e s))"
  by (simp add: trackError_def Let_def)

lemma reachable_inv_release [simp]:
  "reachable_inv s \<Longrightarrow> reachable_inv (state_of (release thr d s))"
  by (simp add: release_def Let_def state_of_and_then reachable_inv_record is_playing_metric_def)

lemma reachable_inv_dispatch [simp]:
  "reachable_inv s \<Longrightarrow> reachable_inv (state_of (dispatch thr e s))"
  by (simp add: dispatch_def state_of_and_then split: PlayerEvent.split)

lemma reachable_inv_elapse [simp]:
  "reachable_inv s \<Longrightarrow> reachable_inv (elapse thr d s)"
  by (simp add: elapse_def stallTrackingCallback_def split: option.split)

lemma reportAdEnded_returns:
  "reportAdEnded (Suc (Suc frames)) s =
     Returns (debugLog ''[ ConvivaAnalyticsTracker ] error @ reportAdEnded'' s)"
  by (induction frames) simp_all

lemma reportAdEnded_state:
  "state_of (reportAdEnded frames s) = s
   \<or> state_of (reportAdEnded frames s) =
       debugLog ''[ ConvivaAnalyticsTracker ] error @ reportAdEnded'' s"
proof (cases frames)
  case 0
  then show ?thesis by simp
next
  case (Suc m)
  then show ?thesis
    by (cases m) (simp_all add: reportAdEnded_returns del: reportAdEnded.simps(2), simp)
qed

lemma reachable_inv_trackAdFinished [simp]:
  "reachable_inv s \<Longrightarrow> reachable_inv (state_of (trackAdFinished frames s))"
  using reportAdEnded_state [of frames "debugLog ''[ ConvivaAnalyticsTracker ] report ad ended'' s"]
  by (auto simp: trackAdFinished_def)

lemma reachable_inv_step:
  "reachable_inv s \<Longrightarrow> reachable_inv (state_of (step thr a s))"
  by (simp add: step_def updateContentMetadata_def internalUpdateContentMetadata_def attachPlayer_def Let_def
      split: action.split)

lemma reachable_inv_run:
  "reachable_inv s \<Longrightarrow> reachable_inv (run thr acts s)"
  by (induction acts arbitrary: s) (simp_all add: reachable_inv_step)

lemma reachable_inv_new: "reachable_inv (new_tracker dbg)"
  by (simp add: reachable_inv_def new_tracker_def)

section \<open>Ending a session\<close>

lemma internalEndSession_paired:
  assumes "convivaVideoAnalytics s \<noteq> None" "convivaAdAnalytics s \<noteq> None"
  shows "\<exists>s'. internalEndSession s = Returns s'
          \<and> sdk_calls s' = sdk_calls s @ [VideoRelease, AdRelease]
          \<and> convivaVideoAnalytics s' = None \<and> convivaAdAnalytics s' = None
          \<and> \<not> isAdBreakActive s' \<and> \<not> hasPlayed s'
          \<and> sessionEndedExternally s' = sessionEndedExternally s
          \<and> player s' = player s \<and> stallTrackingTimeout s' = stallTrackingTimeout s
          \<and> contentMetadataBuilder s' = new_builder"
  using assms
  by (auto simp: internalEndSession_def isSessionActive_def Let_def builder_reset_def)

lemma ensurePlaybackFinished_fields [simp]:
  "convivaVideoAnalytics (ensurePlaybackFinished thr s) = convivaVideoAnalytics s"
  "convivaAdAnalytics (ensurePlaybackFinished thr s) = convivaAdAnalytics s"
  "sessionEndedExternally (ensurePlaybackFinished thr s) = sessionEndedExternally s"
  "player (ensurePlaybackFinished thr s) = player s"
  "stallTrackingTimeout (ensurePlaybackFinished thr s) = stallTrackingTimeout s"
  "isAdBreakActive (ensurePlaybackFinished thr s) = isAdBreakActive s"
  by (simp_all add: ensurePlaybackFinished_def Let_def wrapper_defs)

lemma ensurePlaybackFinished_calls:
  "sdk_calls (ensurePlaybackFinished thr s) =
     sdk_calls s @
       (if convivaVideoAnalytics s = None then []
        else (if isAdBreakActive s \<and> convivaAdAnalytics s \<noteq> None then [AdReportAdSkipped] else [])
             @ [VideoReportPlaybackEnded])"
  by (auto simp: ensurePlaybackFinished_def Let_def wrapper_defs isSessionActive_def)

text \<open>
  C2. \<open>endSession()\<close> returns the tracker unchanged when no session is active. With a
  session active (its ad handle present, as in every reachable tracker) during an ad
  break, it calls the SDK in this order: ad skipped, playback ended, release of the video
  handle, release of the ad handle; afterwards both handles are null, \<open>isAdBreakActive\<close>
  and \<open>hasPlayed\<close> are false, and the session counts as ended externally.
\<close>

theorem endSession_reports_then_releases:
  "(\<not> isSessionActive s \<longrightarrow> endSession thr s = Returns s) \<and>
   (isSessionActive s \<and> isAdBreakActive s \<and> convivaAdAnalytics s \<noteq> None \<longrightarrow>
      (\<exists>s'. endSession thr s = Returns s' \<and>
            sdk_calls s' = sdk_calls s @ [AdReportAdSkipped, VideoReportPlaybackEnded, VideoRelease, AdRelease] \<and>
            convivaVideoAnalytics s' = None \<and> convivaAdAnalytics s' = None \<and>
            \<not> isAdBreakActive s' \<and> \<not> hasPlayed s' \<and> sessionEndedExternally s'))"
proof (intro conjI impI)
  assume "\<not> isSessionActive s"
  then show "endSession thr s = Returns s" by (simp add: endSession_def)
next
  assume a: "isSessionActive s \<and> isAdBreakActive s \<and> convivaAdAnalytics s \<noteq> None"
  let ?s1 = "ensurePlaybackFinished thr (debugLog ''[ ConvivaAnalytics ] external ending session'' s)"
  from a have v: "convivaVideoAnalytics ?s1 \<noteq> None" and d: "convivaAdAnalytics ?s1 \<noteq> None"
    by (simp_all add: isSessionActive_def)
  from internalEndSession_paired [OF v d] obtain s' where
    r: "internalEndSession ?s1 = Returns s'"
    and c: "sdk_calls s' = sdk_calls ?s1 @ [VideoRelease, AdRelease]"
    and f: "convivaVideoAnalytics s' = None" "convivaAdAnalytics s' = None"
           "\<not> isAdBreakActive s'" "\<not> hasPlayed s'"
    by blast
  from a have c1: "sdk_calls ?s1 = sdk_calls s @ [AdReportAdSkipped, VideoReportPlaybackEnded]"
    by (simp add: ensurePlaybackFinished_calls isSessionActive_def)
  from a r have "endSession thr s = Returns (s'\<lparr>sessionEndedExternally := True\<rparr>)"
    by (simp add: endSession_def)
  with c c1 f show "\<exists>s'. endSession thr s = Returns s' \<and>
            sdk_calls s' = sdk_calls s @ [AdReportAdSkipped, VideoReportPlaybackEnded, VideoRelease, AdRelease] \<and>
            convivaVideoAnalytics s' = None \<and> convivaAdAnalytics s' = None \<and>
            \<not> isAdBreakActive s' \<and> \<not> hasPlayed s' \<and> sessionEndedExternally s'"
    by simp
qed


theorem endSession_reports_then_releases_witness:
  "isSessionActive ad_break_tracker \<and> isAdBreakActive ad_break_tracker
   \<and> convivaAdAnalytics ad_break_tracker \<noteq> None
   \<and> (\<exists>s'. endSession never_throws ad_break_tracker = Returns s' \<and>
            sdk_calls s' = sdk_calls ad_break_tracker @
              [AdReportAdSkipped, VideoReportPlaybackEnded, VideoRelease, AdRelease] \<and>
            convivaVideoAnalytics s' = None \<and> convivaAdAnalytics s' = None \<and>
            \<not> isAdBreakActive s' \<and> \<not> hasPlayed s' \<and> sessionEndedExternally s')"
proof -
  have h: "isSessionActive ad_break_tracker \<and> isAdBreakActive ad_break_tracker
           \<and> convivaAdAnalytics ad_break_tracker \<noteq> None"
    by code_simp
  with endSession_reports_then_releases [of ad_break_tracker never_throws] show ?thesis
    by blast
qed

section \<open>The startup baseline\<close>

text \<open>
  C3. Session initialization calls the SDK in a fixed order: the two handles are built,
  "playback requested" is reported, the player info is set when a player is attached,
  and then the STOPPED player state is reported. In every run from a new tracker, over
  any sequence of player events, public calls, player changes and waits, each session's
  STOPPED report comes before its first PLAYING report, on the content stream and on the
  ad stream.
\<close>

theorem stopped_before_first_playing:
  "sdk_calls (internalInitializeSession thr s) =
     sdk_calls s @
       [BuildVideoAnalytics, BuildAdAnalytics,
        VideoReportPlaybackRequested
          (builder_build (builder_with_source (player_source s) (contentMetadataBuilder s))),
        VideoGetSessionId] @
       (if isPlayerAttached s then [VideoSetPlayerInfo, AdSetAdPlayerInfo] else []) @
       [VideoReportPlaybackMetric PLAYER_STATE (StateValue STOPPED), VideoSetCallback]
   \<and> stopped_before_playing False (sdk_calls (run thr acts (new_tracker dbg)))"
  using reachable_inv_run [OF reachable_inv_new, of thr acts dbg]
  by (simp add: internalInitializeSession_calls reachable_inv_def)

theorem stopped_before_first_playing_witness:
  "sdk_calls playing_tracker =
      [BuildVideoAnalytics, BuildAdAnalytics,
       VideoReportPlaybackRequested (Some ''Asset Title''), VideoGetSessionId,
       VideoSetPlayerInfo, AdSetAdPlayerInfo,
       VideoReportPlaybackMetric PLAYER_STATE (StateValue STOPPED),
       VideoSetCallback,
       VideoReportPlaybackMetric AUDIO_LANGUAGE (StrValue ''[en]:English''),
       VideoReportPlaybackMetric SUBTITLES_LANGUAGE (StrValue ''off''),
       VideoReportPlaybackMetric CLOSED_CAPTIONS_LANGUAGE (StrValue ''off''),
       VideoSetContentInfo (Some ''Asset Title''),
       VideoReportPlaybackMetric PLAYER_STATE (StateValue PLAYING)]
   \<and> stopped_before_playing False (sdk_calls playing_tracker)"
proof -
  have e: "sdk_calls playing_tracker =
      [BuildVideoAnalytics, BuildAdAnalytics,
       VideoReportPlaybackRequested (Some ''Asset Title''), VideoGetSessionId,
       VideoSetPlayerInfo, AdSetAdPlayerInfo,
       VideoReportPlaybackMetric PLAYER_STATE (StateValue STOPPED),
       VideoSetCallback,
       VideoReportPlaybackMetric AUDIO_LANGUAGE (StrValue ''[en]:English''),
       VideoReportPlaybackMetric SUBTITLES_LANGUAGE (StrValue ''off''),
       VideoReportPlaybackMetric CLOSED_CAPTIONS_LANGUAGE (StrValue ''off''),
       VideoSetContentInfo (Some ''Asset Title''),
       VideoReportPlaybackMetric PLAYER_STATE (StateValue PLAYING)]"
    by code_simp
  from stopped_before_first_playing [of never_throws "new_tracker False" playing_run False]
  have "stopped_before_playing False (sdk_calls playing_tracker)"
    by (simp add: playing_tracker_def)
  with e show ?thesis by simp
qed

section \<open>Player errors\<close>




section \<open>Ad breaks and the player state\<close>

lemma trackAdBreakStarted_fields [simp]:
  "player (trackAdBreakStarted thr type s) = player s"
  "contentMetadataBuilder (trackAdBreakStarted thr type s) = contentMetadataBuilder s"
  "convivaVideoAnalytics (trackAdBreakStarted thr type s) = convivaVideoAnalytics s"
  "convivaAdAnalytics (trackAdBreakStarted thr type s) = convivaAdAnalytics s"
  "sessionKey (trackAdBreakStarted thr type s) = sessionKey s"
  "hasPlayed (trackAdBreakStarted thr type s) = hasPlayed s"
  "sessionEndedExternally (trackAdBreakStarted thr type s) = sessionEndedExternally s"
  "stallTrackingTimeout (trackAdBreakStarted thr type s) = stallTrackingTimeout s"
  "sdk_next (trackAdBreakStarted thr type s) = sdk_next s"
  "debugLoggingEnabled (trackAdBreakStarted thr type s) = debugLoggingEnabled s"
  by (simp_all add: trackAdBreakStarted_def wrapper_defs)

lemma trackAdBreakStarted_active:
  "isSessionActive s \<Longrightarrow>
     isAdBreakActive (trackAdBreakStarted thr type s)
     \<and> sdk_calls (trackAdBreakStarted thr type s) =
         sdk_calls s @ [VideoReportAdBreakStarted type (if type = CLIENT_SIDE then SEPARATE else CONTENT)]"
  by (auto simp: trackAdBreakStarted_def wrapper_defs isSessionActive_def)

text \<open>
  C1, as stated, fails: the player plays before the ad break and is paused when the ad
  break finishes; the state reported to the content stream after
  \<open>trackAdBreakFinished()\<close> is PAUSED, not the PLAYING that was active before
  \<open>trackAdBreakStarted()\<close>.
\<close>

theorem ad_break_state_not_restored:
  "getPlayerState playing_player = PLAYING
   \<and> last (sdk_calls playing_tracker) = VideoReportPlaybackMetric PLAYER_STATE (StateValue PLAYING)
   \<and> last (sdk_calls (run never_throws
         [CallTrackAdBreakStarted CLIENT_SIDE, PlayerBecomes paused_player, CallTrackAdBreakFinished]
         playing_tracker))
       = VideoReportPlaybackMetric PLAYER_STATE (StateValue PAUSED)"
  by code_simp

text \<open>
  C1, amended. With a session active and a player attached, \<open>trackAdBreakFinished()\<close>
  reports ad-break-ended and then, to the content stream, the state derived from the
  player at that moment (BUFFERING if stalled, else PLAYING if playing, else PAUSED), and
  clears the ad-break flag. \<open>trackAdBreakStarted(type)\<close> sets the flag and saves nothing:
  it leaves every other field of the tracker as it was.
\<close>

theorem trackAdBreakFinished_reports_current_state:
  assumes "isSessionActive s" and "player s = Some p"
  shows "(\<exists>s'. trackAdBreakFinished thr s = Returns s'
            \<and> sdk_calls s' = sdk_calls s @
                 [VideoReportAdBreakEnded,
                  VideoReportPlaybackMetric PLAYER_STATE (StateValue (getPlayerState p))]
            \<and> \<not> isAdBreakActive s')
     \<and> player (trackAdBreakStarted thr type s) = player s
     \<and> contentMetadataBuilder (trackAdBreakStarted thr type s) = contentMetadataBuilder s
     \<and> convivaVideoAnalytics (trackAdBreakStarted thr type s) = convivaVideoAnalytics s
     \<and> convivaAdAnalytics (trackAdBreakStarted thr type s) = convivaAdAnalytics s
     \<and> sessionKey (trackAdBreakStarted thr type s) = sessionKey s
     \<and> hasPlayed (trackAdBreakStarted thr type s) = hasPlayed s
     \<and> sessionEndedExternally (trackAdBreakStarted thr type s) = sessionEndedExternally s
     \<and> stallTrackingTimeout (trackAdBreakStarted thr type s) = stallTrackingTimeout s
     \<and> isAdBreakActive (trackAdBreakStarted thr type s)"
  using assms trackAdBreakStarted_active [of s thr type]
  by (auto simp: trackAdBreakFinished_def wrapper_defs isSessionActive_def Let_def)

theorem trackAdBreakFinished_reports_current_state_witness:
  "isSessionActive ad_break_tracker \<and> player ad_break_tracker = Some playing_player
   \<and> (\<exists>s'. trackAdBreakFinished never_throws ad_break_tracker = Returns s'
          \<and> sdk_calls s' = sdk_calls ad_break_tracker @
               [VideoReportAdBreakEnded, VideoReportPlaybackMetric PLAYER_STATE (StateValue PLAYING)]
          \<and> \<not> isAdBreakActive s')"
proof -
  have h: "isSessionActive ad_break_tracker" "player ad_break_tracker = Some playing_player"
    by code_simp+
  have g: "getPlayerState playing_player = PLAYING"
    by code_simp
  from trackAdBreakFinished_reports_current_state [OF h, of never_throws CLIENT_SIDE] h g
  show ?thesis by simp
qed

section \<open>Paused events\<close>

text \<open>
  C6, as stated, fails in its second half: in an active session whose player reports
  \<open>isPaused()\<close> false, a Paused event still yields a PAUSED player state metric.
\<close>

theorem paused_event_ignores_isPaused:
  "\<not> isPaused playing_player \<and> player playing_tracker = Some playing_player
   \<and> isSessionActive playing_tracker
   \<and> sdk_calls (run never_throws [Fires (event Paused)] playing_tracker) =
       sdk_calls playing_tracker @ [VideoReportPlaybackMetric PLAYER_STATE (StateValue PAUSED)]"
  by code_simp

text \<open>
  C6, amended. During an active session a Paused event yields a PAUSED player state
  metric whatever \<open>isPaused()\<close> and \<open>isPlaying()\<close> report: on the ad stream when an ad
  break is active, on the content stream otherwise.
\<close>

theorem paused_event_reports_paused:
  assumes "isSessionActive s" and "convivaAdAnalytics s \<noteq> None" and "player s = Some p"
    and "ev_type e = Paused"
  shows "\<exists>s'. trackPlaybackStateChanged thr e s = Returns s'
          \<and> sdk_calls s' = sdk_calls s @
               [if isAdBreakActive s then AdReportAdMetric PLAYER_STATE (StateValue PAUSED)
                else VideoReportPlaybackMetric PLAYER_STATE (StateValue PAUSED)]"
  using assms
  by (auto simp: trackPlaybackStateChanged_def getPlayerStateFromEvent_def wrapper_defs
      isSessionActive_def Let_def stallTrackingStartEvents_def stallTrackingClearEvents_def
      timeout_clear_def)

theorem paused_event_reports_paused_witness:
  "isSessionActive playing_tracker \<and> player playing_tracker = Some playing_player
   \<and> \<not> isPaused playing_player
   \<and> (\<exists>s'. trackPlaybackStateChanged never_throws (event Paused) playing_tracker = Returns s'
          \<and> sdk_calls s' = sdk_calls playing_tracker @
               [VideoReportPlaybackMetric PLAYER_STATE (StateValue PAUSED)])"
proof -
  have h: "isSessionActive playing_tracker" "convivaAdAnalytics playing_tracker \<noteq> None"
      "player playing_tracker = Some playing_player" "ev_type (event Paused) = Paused"
    by code_simp+
  have g: "\<not> isPaused playing_player" "\<not> isAdBreakActive playing_tracker"
    by code_simp+
  from paused_event_reports_paused [OF h, of never_throws] h g
  show ?thesis by simp
qed

section \<open>The stall timer\<close>

lemma elapse_idle [simp]:
  "stallTrackingTimeout s = None \<Longrightarrow> elapse thr d s = s"
  by (simp add: elapse_def)

lemma elapse_early:
  "stallTrackingTimeout s = Some r \<Longrightarrow> d < r \<Longrightarrow>
   elapse thr d s = s\<lparr>stallTrackingTimeout := Some (r - d)\<rparr>"
  by (simp add: elapse_def)

lemma elapse_late:
  "stallTrackingTimeout s = Some r \<Longrightarrow> r \<le> d \<Longrightarrow>
   elapse thr d s = stallTrackingCallback thr (s\<lparr>stallTrackingTimeout := None\<rparr>)"
  by (simp add: elapse_def)

lemma stallTrackingCallback_calls:
  "convivaVideoAnalytics s \<noteq> None \<Longrightarrow> convivaAdAnalytics s \<noteq> None \<Longrightarrow>
   sdk_calls (stallTrackingCallback thr s) =
     sdk_calls s @
       [if isAdBreakActive s then AdReportAdMetric PLAYER_STATE (StateValue BUFFERING)
        else VideoReportPlaybackMetric PLAYER_STATE (StateValue BUFFERING)]"
  by (auto simp: stallTrackingCallback_def wrapper_defs)

lemma stallTrackingCallback_timeout [simp]:
  "stallTrackingTimeout (stallTrackingCallback thr s) = stallTrackingTimeout s"
  by (simp add: stallTrackingCallback_def wrapper_defs)

lemma onset_arms:
  assumes "isSessionActive s" "player s = Some p" "ev_type e \<in> set stallTrackingStartEvents"
  shows "trackPlaybackStateChanged thr e s = Returns (s\<lparr>stallTrackingTimeout := Some STALL_TRACKING_DELAY_MS\<rparr>)"
  using assms
  by (auto simp: trackPlaybackStateChanged_def getPlayerStateFromEvent_def Let_def
      stallTrackingStartEvents_def timeout_start_def)

lemma resolving_clears:
  assumes "isSessionActive s" "player s = Some p" "ev_type r \<in> set stallTrackingClearEvents"
  shows "\<exists>s'. trackPlaybackStateChanged thr r s = Returns s' \<and> stallTrackingTimeout s' = None"
  using assms
  by (auto simp: trackPlaybackStateChanged_def Let_def wrapper_defs
      stallTrackingStartEvents_def stallTrackingClearEvents_def timeout_clear_def
      split: option.split)

text \<open>
  What a resolving event reports is its own state metric: a BUFFERING state is among the
  calls it adds exactly when the event is \<open>StallStarted\<close>.
\<close>

lemma resolving_event_own_report:
  assumes "isSessionActive s" and "convivaAdAnalytics s \<noteq> None" and "player s = Some p"
    and "ev_type r \<in> set stallTrackingClearEvents"
  shows "\<exists>s' new. trackPlaybackStateChanged thr r s = Returns s'
          \<and> sdk_calls s' = sdk_calls s @ new
          \<and> ((VideoReportPlaybackMetric PLAYER_STATE (StateValue BUFFERING) \<in> set new
               \<or> AdReportAdMetric PLAYER_STATE (StateValue BUFFERING) \<in> set new)
              = (ev_type r = StallStarted))"
  using assms
  by (auto simp: trackPlaybackStateChanged_def getPlayerStateFromEvent_def Let_def wrapper_defs
      stallTrackingStartEvents_def stallTrackingClearEvents_def timeout_clear_def isSessionActive_def)

text \<open>
  C7. In an active session with a player attached, a stall-onset event (play, seek,
  timeShift) reports nothing and (re)arms the one stall timer with the fixed delay,
  whatever the timer was before. If less than the delay passes and then a resolving
  event (stallStarted, playing, paused, seeked, timeShifted, stallEnded, playbackFinished)
  arrives, nothing is reported while waiting, the event leaves the timer idle, and an
  idle timer never fires however long one waits. If the delay passes first, exactly one
  BUFFERING player state is reported, on the ad stream when an ad break is active and on
  the content stream otherwise, and the timer is idle afterwards.
\<close>

theorem stall_timer_debounce:
  assumes "isSessionActive s" and "convivaAdAnalytics s \<noteq> None" and "player s = Some p"
    and "ev_type e \<in> set stallTrackingStartEvents"
  shows "\<exists>s1. trackPlaybackStateChanged thr e s = Returns s1
          \<and> stallTrackingTimeout s1 = Some STALL_TRACKING_DELAY_MS
          \<and> sdk_calls s1 = sdk_calls s
          \<and> (\<forall>d r. d < STALL_TRACKING_DELAY_MS \<and> ev_type r \<in> set stallTrackingClearEvents \<longrightarrow>
                sdk_calls (elapse thr d s1) = sdk_calls s1
                \<and> (\<exists>s3. trackPlaybackStateChanged thr r (elapse thr d s1) = Returns s3
                      \<and> stallTrackingTimeout s3 = None
                      \<and> (\<forall>d'. elapse thr d' s3 = s3)))
          \<and> (\<forall>d. STALL_TRACKING_DELAY_MS \<le> d \<longrightarrow>
                sdk_calls (elapse thr d s1) =
                  sdk_calls s1 @
                    [if isAdBreakActive s then AdReportAdMetric PLAYER_STATE (StateValue BUFFERING)
                     else VideoReportPlaybackMetric PLAYER_STATE (StateValue BUFFERING)]
                \<and> stallTrackingTimeout (elapse thr d s1) = None
                \<and> (\<forall>d'. elapse thr d' (elapse thr d s1) = elapse thr d s1))"
proof -
  let ?s1 = "s\<lparr>stallTrackingTimeout := Some STALL_TRACKING_DELAY_MS\<rparr>"
  have r1: "trackPlaybackStateChanged thr e s = Returns ?s1"
    using assms by (rule_tac onset_arms) simp_all
  have early: "sdk_calls (elapse thr d ?s1) = sdk_calls ?s1
                \<and> (\<exists>s3. trackPlaybackStateChanged thr r (elapse thr d ?s1) = Returns s3
                      \<and> stallTrackingTimeout s3 = None
                      \<and> (\<forall>d'. elapse thr d' s3 = s3))"
    if "d < STALL_TRACKING_DELAY_MS" "ev_type r \<in> set stallTrackingClearEvents" for d r
  proof -
    have el: "elapse thr d ?s1 = ?s1\<lparr>stallTrackingTimeout := Some (STALL_TRACKING_DELAY_MS - d)\<rparr>"
      using that by (simp add: elapse_early)
    have act: "isSessionActive (elapse thr d ?s1)" "player (elapse thr d ?s1) = Some p"
      using assms by (simp_all add: el isSessionActive_def)
    from resolving_clears [OF act that(2), of thr] obtain s3 where
      "trackPlaybackStateChanged thr r (elapse thr d ?s1) = Returns s3" "stallTrackingTimeout s3 = None"
      by blast
    then show ?thesis by (auto simp: el)
  qed
  have late: "sdk_calls (elapse thr d ?s1) =
                  sdk_calls ?s1 @
                    [if isAdBreakActive s then AdReportAdMetric PLAYER_STATE (StateValue BUFFERING)
                     else VideoReportPlaybackMetric PLAYER_STATE (StateValue BUFFERING)]
                \<and> stallTrackingTimeout (elapse thr d ?s1) = None
                \<and> (\<forall>d'. elapse thr d' (elapse thr d ?s1) = elapse thr d ?s1)"
    if "STALL_TRACKING_DELAY_MS \<le> d" for d
  proof -
    have el: "elapse thr d ?s1 = stallTrackingCallback thr (?s1\<lparr>stallTrackingTimeout := None\<rparr>)"
      using that by (simp add: elapse_late)
    have "sdk_calls (stallTrackingCallback thr (?s1\<lparr>stallTrackingTimeout := None\<rparr>)) =
            sdk_calls s @
              [if isAdBreakActive s then AdReportAdMetric PLAYER_STATE (StateValue BUFFERING)
               else VideoReportPlaybackMetric PLAYER_STATE (StateValue BUFFERING)]"
      using assms by (subst stallTrackingCallback_calls) (simp_all add: isSessionActive_def)
    then show ?thesis by (simp add: el)
  qed
  from r1 early late show ?thesis by auto
qed

theorem stall_timer_debounce_witness:
  "\<exists>s1. trackPlaybackStateChanged never_throws (event Seek) playing_tracker = Returns s1
      \<and> stallTrackingTimeout s1 = Some STALL_TRACKING_DELAY_MS
      \<and> sdk_calls (elapse never_throws 50 s1) = sdk_calls playing_tracker
      \<and> (\<exists>s3. trackPlaybackStateChanged never_throws (event Seeked) (elapse never_throws 50 s1) = Returns s3
            \<and> stallTrackingTimeout s3 = None \<and> elapse never_throws 1000 s3 = s3)
      \<and> sdk_calls (elapse never_throws 150 s1) =
          sdk_calls playing_tracker @ [VideoReportPlaybackMetric PLAYER_STATE (StateValue BUFFERING)]"
proof -
  have h: "isSessionActive playing_tracker" "convivaAdAnalytics playing_tracker \<noteq> None"
      "player playing_tracker = Some playing_player"
      "ev_type (event Seek) \<in> set stallTrackingStartEvents"
    by code_simp+
  have g: "\<not> isAdBreakActive playing_tracker" "(50::nat) < STALL_TRACKING_DELAY_MS"
      "STALL_TRACKING_DELAY_MS \<le> (150::nat)" "ev_type (event Seeked) \<in> set stallTrackingClearEvents"
    by code_simp+
  from stall_timer_debounce [OF h, of never_throws] obtain s1 where
    a: "trackPlaybackStateChanged never_throws (event Seek) playing_tracker = Returns s1"
       "stallTrackingTimeout s1 = Some STALL_TRACKING_DELAY_MS"
       "sdk_calls s1 = sdk_calls playing_tracker"
    and early: "\<And>d r. d < STALL_TRACKING_DELAY_MS \<and> ev_type r \<in> set stallTrackingClearEvents \<Longrightarrow>
                sdk_calls (elapse never_throws d s1) = sdk_calls s1
                \<and> (\<exists>s3. trackPlaybackStateChanged never_throws r (elapse never_throws d s1) = Returns s3
                      \<and> stallTrackingTimeout s3 = None
                      \<and> (\<forall>d'. elapse never_throws d' s3 = s3))"
    and late: "\<And>d. STALL_TRACKING_DELAY_MS \<le> d \<Longrightarrow>
                sdk_calls (elapse never_throws d s1) =
                  sdk_calls s1 @
                    [if isAdBreakActive playing_tracker
                     then AdReportAdMetric PLAYER_STATE (StateValue BUFFERING)
                     else VideoReportPlaybackMetric PLAYER_STATE (StateValue BUFFERING)]
                \<and> stallTrackingTimeout (elapse never_throws d s1) = None
                \<and> (\<forall>d'. elapse never_throws d' (elapse never_throws d s1) = elapse never_throws d s1)"
    by blast
  from early [of 50 "event Seeked"] g obtain s3 where
    e: "sdk_calls (elapse never_throws 50 s1) = sdk_calls s1"
       "trackPlaybackStateChanged never_throws (event Seeked) (elapse never_throws 50 s1) = Returns s3"
       "stallTrackingTimeout s3 = None" "elapse never_throws 1000 s3 = s3"
    by blast
  from late [of 150] g have
    l: "sdk_calls (elapse never_throws 150 s1) =
          sdk_calls s1 @ [VideoReportPlaybackMetric PLAYER_STATE (StateValue BUFFERING)]"
    by simp
  from a e l show ?thesis by simp
qed

section \<open>Client-side and server-side ad breaks\<close>

lemma count_ad_break_started_append [simp]:
  "count_ad_break_started (xs @ ys) = count_ad_break_started xs + count_ad_break_started ys"
  by (induction xs) (simp_all split: sdk_call.split)

text \<open>
  C8, as stated, fails for the client-side entry point: after a server-side
  \<open>reportAdBreakStarted()\<close> both flags are set and one ad-break-started call has been
  made; a client-side ad-break start then makes a second ad-break-started call.
\<close>

theorem csai_start_during_ssai_break_reports:
  "ssai_isAdBreakActive (ssai_reportAdBreakStarted never_throws playing_integration)
   \<and> isAdBreakActive (convivaAnalyticsTracker (ssai_reportAdBreakStarted never_throws playing_integration))
   \<and> count_ad_break_started (sdk_calls (convivaAnalyticsTracker
         (ssai_reportAdBreakStarted never_throws playing_integration))) = 1
   \<and> count_ad_break_started (sdk_calls (convivaAnalyticsTracker
         (csai_onAdBreakStarted never_throws
            (ssai_reportAdBreakStarted never_throws playing_integration)))) = 2
   \<and> last (sdk_calls (convivaAnalyticsTracker
         (csai_onAdBreakStarted never_throws
            (ssai_reportAdBreakStarted never_throws playing_integration))))
       = VideoReportAdBreakStarted CLIENT_SIDE SEPARATE"
  by code_simp

text \<open>
  C8, amended. The server-side \<open>reportAdBreakStarted()\<close> is a no-op while the tracker's
  ad-break flag or its own flag is set, so it is a no-op during a client-side ad break and
  a second call changes nothing. The client-side entry point checks only that a session
  is active: it sets the tracker's flag and reports ad-break-started (CLIENT_SIDE,
  SEPARATE) whatever the two flags are, leaving the server-side flag as it was.
\<close>

theorem ssai_start_guarded_csai_start_not:
  "(isAdBreakActive (convivaAnalyticsTracker x) \<or> ssai_isAdBreakActive x \<longrightarrow>
      ssai_reportAdBreakStarted thr x = x)
   \<and> ssai_reportAdBreakStarted thr (ssai_reportAdBreakStarted thr x) = ssai_reportAdBreakStarted thr x
   \<and> (isSessionActive (convivaAnalyticsTracker x) \<longrightarrow>
        isAdBreakActive (convivaAnalyticsTracker (csai_onAdBreakStarted thr x))
        \<and> ssai_isAdBreakActive (csai_onAdBreakStarted thr x) = ssai_isAdBreakActive x
        \<and> sdk_calls (convivaAnalyticsTracker (csai_onAdBreakStarted thr x)) =
            sdk_calls (convivaAnalyticsTracker x) @ [VideoReportAdBreakStarted CLIENT_SIDE SEPARATE])"
  by (auto simp: ssai_reportAdBreakStarted_def csai_onAdBreakStarted_def trackAdBreakStarted_def
      wrapper_defs isSessionActive_def)

theorem ssai_start_guarded_csai_start_not_witness:
  "ssai_isAdBreakActive (ssai_reportAdBreakStarted never_throws playing_integration)
   \<and> isSessionActive (convivaAnalyticsTracker (ssai_reportAdBreakStarted never_throws playing_integration))
   \<and> ssai_reportAdBreakStarted never_throws (ssai_reportAdBreakStarted never_throws playing_integration)
       = ssai_reportAdBreakStarted never_throws playing_integration
   \<and> sdk_calls (convivaAnalyticsTracker (csai_onAdBreakStarted never_throws
         (ssai_reportAdBreakStarted never_throws playing_integration))) =
       sdk_calls (convivaAnalyticsTracker (ssai_reportAdBreakStarted never_throws playing_integration))
         @ [VideoReportAdBreakStarted CLIENT_SIDE SEPARATE]"
proof -
  have h: "ssai_isAdBreakActive (ssai_reportAdBreakStarted never_throws playing_integration)"
    "isSessionActive (convivaAnalyticsTracker (ssai_reportAdBreakStarted never_throws playing_integration))"
    by code_simp+
  from ssai_start_guarded_csai_start_not
    [of "ssai_reportAdBreakStarted never_throws playing_integration" never_throws] h
  show ?thesis by simp
qed

section \<open>Failures of the vendor SDK\<close>

text \<open>
  Whatever the SDK throws, the tracker a wrapper returns differs from the one returned
  when nothing throws only in its log.
\<close>

lemma report_wrappers_swallow_failures:
  "(reportPlaybackMetric thr k v s)\<lparr>logs := []\<rparr> = (reportPlaybackMetric never_throws k v s)\<lparr>logs := []\<rparr>"
  "(reportAppEvent thr n s)\<lparr>logs := []\<rparr> = (reportAppEvent never_throws n s)\<lparr>logs := []\<rparr>"
  "(reportPlaybackEnded thr s)\<lparr>logs := []\<rparr> = (reportPlaybackEnded never_throws s)\<lparr>logs := []\<rparr>"
  "(reportPlaybackFailed thr n s)\<lparr>logs := []\<rparr> = (reportPlaybackFailed never_throws n s)\<lparr>logs := []\<rparr>"
  "(reportPlaybackEvent thr n s)\<lparr>logs := []\<rparr> = (reportPlaybackEvent never_throws n s)\<lparr>logs := []\<rparr>"
  "(reportAdBreakStarted thr ty pl s)\<lparr>logs := []\<rparr> = (reportAdBreakStarted never_throws ty pl s)\<lparr>logs := []\<rparr>"
  "(reportAdBreakEnded thr s)\<lparr>logs := []\<rparr> = (reportAdBreakEnded never_throws s)\<lparr>logs := []\<rparr>"
  "(reportPlaybackRequested thr s)\<lparr>logs := []\<rparr> = (reportPlaybackRequested never_throws s)\<lparr>logs := []\<rparr>"
  "(reportAdMetric thr k v s)\<lparr>logs := []\<rparr> = (reportAdMetric never_throws k v s)\<lparr>logs := []\<rparr>"
  "(reportAdSkipped thr s)\<lparr>logs := []\<rparr> = (reportAdSkipped never_throws s)\<lparr>logs := []\<rparr>"
  "(reportAdStarted thr s)\<lparr>logs := []\<rparr> = (reportAdStarted never_throws s)\<lparr>logs := []\<rparr>"
  "(reportAdError thr n sev s)\<lparr>logs := []\<rparr> = (reportAdError never_throws n sev s)\<lparr>logs := []\<rparr>"
  by (simp_all add: wrapper_defs try_sdk_def debugLog_def sdk_record_def never_throws_def split: option.split)

lemma try_sdk_throwing:
  "h \<noteq> None \<Longrightarrow> thr c \<Longrightarrow> try_sdk thr h c lbl s = debugLog lbl (try_sdk never_throws h c lbl s)"
  by (auto simp: try_sdk_def never_throws_def)

text \<open>
  The slip in \<open>reportAdEnded\<close>: whatever the stack, no call reaches the SDK, so an ad's
  end is never reported.
\<close>

lemma reportAdEnded_calls [simp]:
  "sdk_calls (state_of (reportAdEnded frames s)) = sdk_calls s"
  using reportAdEnded_state [of frames s] by auto

lemma trackAdFinished_never_forwards:
  "sdk_calls (state_of (trackAdFinished frames s)) = sdk_calls s"
  by (simp add: trackAdFinished_def)

text \<open>
  C10. For every report wrapper, when the vendor call it makes throws, the wrapper still
  returns: the tracker it returns is the one a successful call returns, with the one
  debug line of the catch added (written when debug logging is enabled). \<open>reportAdEnded\<close>
  makes no vendor call; given two free stack frames or more it returns the tracker it
  was given with the debug line of its catch added.
\<close>

theorem report_wrappers_catch_sdk_failure:
  assumes "convivaVideoAnalytics s \<noteq> None" and "convivaAdAnalytics s \<noteq> None"
  shows
   "(thr (VideoReportPlaybackMetric k v) \<longrightarrow>
       reportPlaybackMetric thr k v s =
         debugLog ''[ ConvivaAnalyticsTracker ] error @ reportPlaybackMetric''
           (reportPlaybackMetric never_throws k v s))
  \<and> (thr (VideoReportAppEvent n) \<longrightarrow>
       reportAppEvent thr n s =
         debugLog ''[ ConvivaAnalyticsTracker ] error @ reportAppEvent'' (reportAppEvent never_throws n s))
  \<and> (thr VideoReportPlaybackEnded \<longrightarrow>
       reportPlaybackEnded thr s =
         debugLog ''[ ConvivaAnalyticsTracker ] error @ reportPlaybackEnded''
           (reportPlaybackEnded never_throws s))
  \<and> (thr (VideoReportPlaybackFailed n) \<longrightarrow>
       reportPlaybackFailed thr n s =
         debugLog ''[ ConvivaAnalyticsTracker ] error @ reportPlaybackFailed''
           (reportPlaybackFailed never_throws n s))
  \<and> (thr (VideoReportPlaybackEvent n) \<longrightarrow>
       reportPlaybackEvent thr n s =
         debugLog ''[ ConvivaAnalyticsTracker ] error @ reportPlaybackEvent''
           (reportPlaybackEvent never_throws n s))
  \<and> (thr (VideoReportAdBreakStarted ty pl) \<longrightarrow>
       reportAdBreakStarted thr ty pl s =
         debugLog ''[ ConvivaAnalyticsTracker ] error @ reportAdBreakStarted''
           (reportAdBreakStarted never_throws ty pl s))
  \<and> (thr VideoReportAdBreakEnded \<longrightarrow>
       reportAdBreakEnded thr s =
         debugLog ''[ ConvivaAnalyticsTracker ] error @ reportAdBreakEnded''
           (reportAdBreakEnded never_throws s))
  \<and> (thr (VideoReportPlaybackRequested (builder_build (contentMetadataBuilder s))) \<longrightarrow>
       reportPlaybackRequested thr s =
         debugLog ''[ ConvivaAnalyticsTracker ] error @ reportPlaybackRequested''
           (reportPlaybackRequested never_throws s))
  \<and> (thr (AdReportAdMetric k v) \<longrightarrow>
       reportAdMetric thr k v s =
         debugLog ''[ ConvivaAnalyticsTracker ] error @ reportPlaybackMetric''
           (reportAdMetric never_throws k v s))
  \<and> (thr AdReportAdSkipped \<longrightarrow>
       reportAdSkipped thr s =
         debugLog ''[ ConvivaAnalyticsTracker ] error @ reportAdSkipped'' (reportAdSkipped never_throws s))
  \<and> (thr AdReportAdStarted \<longrightarrow>
       reportAdStarted thr s =
         debugLog ''[ ConvivaAnalyticsTracker ] error @ reportAdStarted'' (reportAdStarted never_throws s))
  \<and> (thr (AdReportAdError n sev) \<longrightarrow>
       reportAdError thr n sev s =
         debugLog ''[ ConvivaAnalyticsTracker ] error @ reportAdError'' (reportAdError never_throws n sev s))
  \<and> reportAdEnded (Suc (Suc frames)) s =
       Returns (debugLog ''[ ConvivaAnalyticsTracker ] error @ reportAdEnded'' s)"
  using assms unfolding wrapper_defs
  by (simp add: try_sdk_throwing reportAdEnded_returns del: reportAdEnded.simps)

theorem report_wrappers_catch_sdk_failure_witness:
  "convivaVideoAnalytics logging_tracker \<noteq> None \<and> convivaAdAnalytics logging_tracker \<noteq> None
   \<and> always_throws AdReportAdSkipped
   \<and> reportAdSkipped always_throws logging_tracker =
       debugLog ''[ ConvivaAnalyticsTracker ] error @ reportAdSkipped''
         (reportAdSkipped never_throws logging_tracker)
   \<and> logs (reportAdSkipped always_throws logging_tracker) =
       [DebugLog ''[ ConvivaAnalyticsTracker ] error @ reportAdSkipped'']
   \<and> sdk_calls (reportAdSkipped always_throws logging_tracker) =
       sdk_calls logging_tracker @ [AdReportAdSkipped]
   \<and> reportAdEnded 2 logging_tracker =
       Returns (debugLog ''[ ConvivaAnalyticsTracker ] error @ reportAdEnded'' logging_tracker)"
proof -
  have h: "convivaVideoAnalytics logging_tracker \<noteq> None" "convivaAdAnalytics logging_tracker \<noteq> None"
    by code_simp+
  have t: "always_throws AdReportAdSkipped"
    by (simp add: always_throws_def)
  have e: "logs (reportAdSkipped always_throws logging_tracker) =
             [DebugLog ''[ ConvivaAnalyticsTracker ] error @ reportAdSkipped'']"
          "sdk_calls (reportAdSkipped always_throws logging_tracker) =
             sdk_calls logging_tracker @ [AdReportAdSkipped]"
    by code_simp+
  note inst = report_wrappers_catch_sdk_failure
    [OF h, where thr = always_throws and frames = 0 and k = PLAYER_STATE and v = NoValue
       and n = "[]" and ty = CLIENT_SIDE and pl = SEPARATE and sev = FATAL]
  from inst t have a: "reportAdSkipped always_throws logging_tracker =
       debugLog ''[ ConvivaAnalyticsTracker ] error @ reportAdSkipped''
         (reportAdSkipped never_throws logging_tracker)"
    by blast
  from inst have b: "reportAdEnded (Suc (Suc 0)) logging_tracker =
       Returns (debugLog ''[ ConvivaAnalyticsTracker ] error @ reportAdEnded'' logging_tracker)"
    by blast
  have b': "reportAdEnded 2 logging_tracker =
       Returns (debugLog ''[ ConvivaAnalyticsTracker ] error @ reportAdEnded'' logging_tracker)"
    unfolding numeral_2_eq_2 by (rule b)
  from h t e a b' show ?thesis by blast
qed

end
